theory Spec2Isabelle
  imports Complex_Main "HOL-Library.AList"
begin

section \<open>Data model of \<^verbatim>\<open>lbftd/evalGibbs.py\<close>\<close>

text \<open>
  A numeric numpy array is a nested list: \<open>Sc x\<close> is a scalar (a 0-d array or a numpy
  float), \<open>Ar vs\<close> an array whose first axis runs over \<open>vs\<close>. Floats are reals: the engine
  compares them with zero and with each other, and adds and multiplies them only for the
  conversion factor; nothing below depends on rounding.
\<close>

datatype nd = Sc real | Ar "nd list"

text \<open>
  A point of a single-point request is a plain Python number or a numpy scalar; the two
  differ in what subscripting them raises. The point set \<open>PTM\<close> is a tuple of such scalars
  or a numpy array of per-dimension arrays. \<^verbatim>\<open>np.array\<close> makes of dimensions of different
  lengths an object array holding one 1-d array per dimension (\<open>ObjArray\<close>), and of
  dimensions of one common length a 2-d float array (\<open>FloatArray\<close>, given by its rows, which
  all have that length). Both read alike; they differ in their \<^verbatim>\<open>size\<close> and in what can be
  assigned to a row.
\<close>

datatype scalar = PyNum real | NpNum real

datatype ptm = Tuple "scalar list" | ObjArray "real list list" | FloatArray "real list list"

text \<open>The spline dict of \<^verbatim>\<open>mlbspline.load.getSplineDict\<close>.\<close>

record spline =
  form :: string
  knots :: "real list list"
  number :: "nat list"
  order :: "nat list"
  dim :: nat
  coefs :: nd

text \<open>
  Every \<^verbatim>\<open>raise\<close> of the engine and every Python exception its own statements can throw.
  The first six are the \<^verbatim>\<open>ValueError\<close>s of the validation code (and the one
  \<^verbatim>\<open>expandTDVSpec\<close> reports), told apart by their message and carrying the names
  or dimensions the message prints. \<open>Dangling\<close> is no Python exception: it stands for an
  address that holds no object, which a caller cannot pass.
\<close>

datatype error =
    UnknownVariable string
  | IncompatibleSpline "string list"
  | DimensionMismatch "string set"
  | MissingMWv "string list"
  | MissingMWu "string list"
  | ExtrapolationError "string set"
  | PyIndexError
  | PyTypeError
  | PyValueError
  | PyStopIteration
  | Dangling

text \<open>
  The result object: the class attribute \<^verbatim>\<open>PTM\<close> (a copy of the caller's point set) and
  the instance dictionary \<^verbatim>\<open>vars(tdvout)\<close>, in insertion order; \<open>flds\<close> are the names the class
  declares (each \<^verbatim>\<open>None\<close> until \<^verbatim>\<open>setattr\<close> gives the instance its own value).
\<close>

record tdvout =
  flds :: "string set"
  cls_PTM :: nd
  inst :: "(string \<times> nd) list"

text \<open>What \<^verbatim>\<open>_buildEvalArgs\<close> can put under a keyword.\<close>

datatype resource =
    RDerivs "(string \<times> nd) list"
  | RGrid "nd list option"
  | RMWv "real option"
  | RMWu "real option"
  | RTdv tdvout
  | RSpline spline
  | RPTM "real list list"
  | RF "nd option"

text \<open>A descriptor of the variable registry (\<^verbatim>\<open>statevars.TDV\<close>), with the attributes the
  engine reads.\<close>

record tdv =
  name :: string
  reqDerivs :: "string list"
  reqGrid :: bool
  reqMWv :: bool
  reqMWu :: bool
  reqTDV :: "string set"
  reqSpline :: bool
  reqPTM :: bool
  reqF :: bool
  reqM :: bool
  req0M :: bool
  parmderivs :: string
  parmgrid :: string
  parmMWv :: string
  parmMWu :: string
  parmtdv :: string
  parmspline :: string
  parmptm :: string
  parmf :: string
  calcFn :: "(string \<rightharpoonup> resource) \<Rightarrow> nd"

text \<open>An entry of \<^verbatim>\<open>statevars.derivatives\<close>; an order of 0 is the falsy value.\<close>

record derivSpec =
  dname :: string
  wrtP :: nat
  wrtT :: nat
  wrtM :: nat

text \<open>
  The collaborators outside \<^verbatim>\<open>evalGibbs.py\<close> are parameters: the registry's
  \<^verbatim>\<open>expandTDVSpec\<close> and \<^verbatim>\<open>derivatives\<close>, the spline evaluator
  \<^verbatim>\<open>mlbspline.eval.evalMultivarSpline\<close>, and the machine's total virtual memory.
\<close>

record env =
  expandTDVSpec :: "string list \<Rightarrow> nat \<Rightarrow> error + tdv list"
  derivatives :: "derivSpec list"
  evalMultivarSpline :: "spline \<Rightarrow> real list list \<Rightarrow> nat list \<Rightarrow> nd"
  vm_total :: nat

text \<open>Modelled from the spec: the constants \<^verbatim>\<open>iP\<close>, \<^verbatim>\<open>iT\<close>, \<^verbatim>\<open>iM\<close> and \<^verbatim>\<open>defDer\<close> of
  \<^verbatim>\<open>lbftd/statevars.py\<close>, which is not among the sources: the dimensions are pressure,
  temperature, molality in this order, and the default derivative order is zero.\<close>

definition iP :: nat where "iP = 0"
definition iT :: nat where "iT = 1"
definition iM :: nat where "iM = 2"
definition defDer :: nat where "defDer = 0"

text \<open>The constants at the end of \<^verbatim>\<open>evalGibbs.py\<close>; a float has 64 bits.\<close>

definition vmWarningFactor :: nat where "vmWarningFactor = 2"
definition floatSizeBytes :: nat where "floatSizeBytes = 8"

text \<open>The effects of a call: what it prints or warns, and which outside functions it
  invokes, in order.\<close>

datatype msg = Note "string list" | WarnExtrapolation "string set" | WarnOverflow | WarnMemory

datatype call =
    EvalSpline string "real list list" "nat list"
  | Calc string "string \<rightharpoonup> resource"

text \<open>The caller's point set is an object on the heap: \<^verbatim>\<open>_wrapPTM\<close> assigns into it.\<close>

record heap =
  cells :: "nat \<rightharpoonup> ptm"
  fresh :: nat

definition alloc :: "heap \<Rightarrow> ptm \<Rightarrow> heap \<times> nat" where
  "alloc h v = (h\<lparr>cells := (cells h)(fresh h \<mapsto> v), fresh := Suc (fresh h)\<rparr>, fresh h)"

definition deref :: "heap \<Rightarrow> nat \<Rightarrow> error + ptm" where
  "deref h a = (case cells h a of None \<Rightarrow> Inl Dangling | Some v \<Rightarrow> Inr v)"


section \<open>numpy and Python helpers\<close>

definition scalar_val :: "scalar \<Rightarrow> real" where
  "scalar_val s = (case s of PyNum x \<Rightarrow> x | NpNum x \<Rightarrow> x)"

text \<open>\<^verbatim>\<open>xs[i]\<close> on a Python or numpy sequence and \<^verbatim>\<open>xs[i] = v\<close> on a Python list raise
  \<^verbatim>\<open>IndexError\<close> out of range.\<close>

definition idx :: "'a list \<Rightarrow> nat \<Rightarrow> error + 'a" where
  "idx xs i = (if i < length xs then Inr (xs ! i) else Inl PyIndexError)"

definition assign :: "'a list \<Rightarrow> nat \<Rightarrow> 'a \<Rightarrow> error + 'a list" where
  "assign xs i v = (if i < length xs then Inr (xs[i := v]) else Inl PyIndexError)"

text \<open>Subscripting a numpy array; a numpy scalar answers \<^verbatim>\<open>IndexError\<close>.\<close>

definition nd_index :: "nd \<Rightarrow> nat \<Rightarrow> error + nd" where
  "nd_index v i = (case v of Sc x \<Rightarrow> Inl PyIndexError | Ar vs \<Rightarrow> idx vs i)"

fun ndim :: "nd \<Rightarrow> nat" where
  "ndim (Sc x) = 0"
| "ndim (Ar []) = 1"
| "ndim (Ar (v # vs)) = Suc (ndim v)"

fun nd_flat :: "nd \<Rightarrow> real list" where
  "nd_flat (Sc x) = [x]"
| "nd_flat (Ar vs) = concat (map nd_flat vs)"

text \<open>\<^verbatim>\<open>v[tuple(slc)]\<close> where \<^verbatim>\<open>slc\<close> is \<^verbatim>\<open>slice(None)\<close> on every axis but axis \<open>k\<close>, which has
  \<^verbatim>\<open>slice(1, None)\<close>: the first index along axis \<open>k\<close> is dropped.\<close>

fun sliceAx :: "nat \<Rightarrow> nd \<Rightarrow> nd" where
  "sliceAx k (Sc x) = Sc x"
| "sliceAx 0 (Ar vs) = Ar (drop 1 vs)"
| "sliceAx (Suc k) (Ar vs) = Ar (map (sliceAx k) vs)"

text \<open>The truth value of \<^verbatim>\<open>v != 0\<close> in an \<^verbatim>\<open>if\<close>: numpy refuses an array of several
  elements, and an empty one is false.\<close>

definition ne0 :: "nd \<Rightarrow> error + bool" where
  "ne0 v = (case nd_flat v of [] \<Rightarrow> Inr False | [x] \<Rightarrow> Inr (x \<noteq> 0) | _ \<Rightarrow> Inl PyValueError)"

text \<open>The per-dimension arrays of an array point set, and its \<^verbatim>\<open>size\<close>: the number of slots
  of an object array, the number of floats of a float array.\<close>

definition ptm_rows :: "ptm \<Rightarrow> real list list" where
  "ptm_rows p = (case p of Tuple xs \<Rightarrow> [] | ObjArray ds \<Rightarrow> ds | FloatArray ds \<Rightarrow> ds)"

definition ptm_size :: "ptm \<Rightarrow> nat" where
  "ptm_size p = (case p of
     Tuple xs \<Rightarrow> length xs
   | ObjArray ds \<Rightarrow> length ds
   | FloatArray ds \<Rightarrow> sum_list (map length ds))"

text \<open>\<^verbatim>\<open>np.copy(PTM)\<close>: a float array for a tuple, a copy of the array otherwise.\<close>

definition ptm_copy :: "ptm \<Rightarrow> nd" where
  "ptm_copy p = (case p of
     Tuple xs \<Rightarrow> Ar (map (\<lambda>s. Sc (scalar_val s)) xs)
   | ObjArray ds \<Rightarrow> Ar (map (\<lambda>d. Ar (map Sc d)) ds)
   | FloatArray ds \<Rightarrow> Ar (map (\<lambda>d. Ar (map Sc d)) ds))"

text \<open>\<^verbatim>\<open>np.meshgrid(*PTM.tolist(), indexing='ij')\<close>: one array per dimension, each over the
  whole grid, holding that dimension's coordinate.\<close>

fun grid_of :: "real list list \<Rightarrow> (real list \<Rightarrow> real) \<Rightarrow> nd" where
  "grid_of [] g = Sc (g [])"
| "grid_of (ax # axes) g = Ar (map (\<lambda>x. grid_of axes (\<lambda>cs. g (x # cs))) ax)"

definition meshgrid :: "real list list \<Rightarrow> nd list" where
  "meshgrid PTM = map (\<lambda>d. grid_of PTM (\<lambda>cs. cs ! d)) [0..<length PTM]"

text \<open>\<^verbatim>\<open>[(k[0], k[-1]) for k in ks]\<close>.\<close>

fun ranges :: "real list list \<Rightarrow> error + (real \<times> real) list" where
  "ranges [] = Inr []"
| "ranges (k # ks) =
     (if k = [] then Inl PyIndexError
      else case ranges ks of Inl e \<Rightarrow> Inl e | Inr rs \<Rightarrow> Inr ((hd k, last k) # rs))"

text \<open>\<^verbatim>\<open>[(d[0], d[-1]) if isinstance(d, Iterable) else (d, d) for d in PTM]\<close>.\<close>

definition ptmranges :: "ptm \<Rightarrow> error + (real \<times> real) list" where
  "ptmranges p = (case p of
     Tuple xs \<Rightarrow> Inr (map (\<lambda>s. (scalar_val s, scalar_val s)) xs)
   | ObjArray ds \<Rightarrow> ranges ds
   | FloatArray ds \<Rightarrow> ranges ds)"

text \<open>\<^verbatim>\<open>[len(d) if isinstance(d, Iterable) else 1 for d in PTM]\<close>.\<close>

definition ptm_lens :: "ptm \<Rightarrow> nat list" where
  "ptm_lens p = (case p of
     Tuple xs \<Rightarrow> map (\<lambda>s. 1) xs
   | ObjArray ds \<Rightarrow> map length ds
   | FloatArray ds \<Rightarrow> map length ds)"

text \<open>\<^verbatim>\<open>x == 0 or not x\<close> for a molecular weight that is a float or \<^verbatim>\<open>None\<close>.\<close>

definition falsyMW :: "real option \<Rightarrow> bool" where
  "falsyMW w = (w = Some 0 \<or> w = None)"


text \<open>A Python dict after the assignments \<^verbatim>\<open>d[k] = v\<close> for the pairs of a list, in order: a
  later assignment to a key replaces an earlier one.\<close>

definition dict_of :: "('k \<times> 'v) list \<Rightarrow> ('k \<rightharpoonup> 'v)" where
  "dict_of xs = foldl (\<lambda>m kv. m(fst kv \<mapsto> snd kv)) Map.empty xs"

text \<open>Running a fallible step over a sequence stops at the first exception.\<close>

fun mapE :: "('a \<Rightarrow> error + 'b) \<Rightarrow> 'a list \<Rightarrow> error + 'b list" where
  "mapE f [] = Inr []"
| "mapE f (x # xs) =
     (case f x of Inl e \<Rightarrow> Inl e
      | Inr y \<Rightarrow> (case mapE f xs of Inl e \<Rightarrow> Inl e | Inr ys \<Rightarrow> Inr (y # ys)))"

section \<open>The Input Validator\<close>

definition checkSplineAndTdvs :: "spline \<Rightarrow> nat \<Rightarrow> tdv list \<Rightarrow> error + unit" where
  "checkSplineAndTdvs gibbsSp dimCt tdvSpec =
     (case ranges (knots gibbsSp) of Inl e \<Rightarrow> Inl e
      | Inr knotranges \<Rightarrow>
        let req0Ms = filter req0M tdvSpec in
        (case (if dimCt = 3 \<and> req0Ms \<noteq> []
               then (case idx knotranges iM of Inl e \<Rightarrow> Inl e | Inr kr \<Rightarrow> Inr (fst kr \<noteq> 0))
               else Inr False) of
           Inl e \<Rightarrow> Inl e
         | Inr True \<Rightarrow> Inl (IncompatibleSpline (map name req0Ms))
         | Inr False \<Rightarrow>
             let reqMs = filter (\<lambda>t. reqF t \<or> reqM t) tdvSpec in
             if dimCt = 2 \<and> reqMs \<noteq> [] then Inl (DimensionMismatch (set (map name reqMs)))
             else Inr ()))"

definition hasValsOutsideKnotRange :: "real \<times> real \<Rightarrow> real \<times> real \<Rightarrow> bool" where
  "hasValsOutsideKnotRange kr dr = (fst dr < fst kr \<or> snd dr > snd kr)"

definition dimLabel :: "nat \<Rightarrow> string" where
  "dimLabel d = (if d = iP then ''P'' else if d = iT then ''T'' else ''M'')"

text \<open>The parameters are in the order of the source's \<^verbatim>\<open>def\<close> line: \<open>MWu\<close> before \<open>MWv\<close>.\<close>

definition checkUserInput ::
  "spline \<Rightarrow> nat \<Rightarrow> tdv list \<Rightarrow> ptm \<Rightarrow> real option \<Rightarrow> real option \<Rightarrow> bool \<Rightarrow> error + msg list" where
  "checkUserInput gibbsSp dimCt tdvSpec PTM MWu MWv failOnExtrapolate =
     (let reqMWvs = filter reqMWv tdvSpec in
      if falsyMW MWv \<and> reqMWvs \<noteq> [] then Inl (MissingMWv (map name reqMWvs))
      else
        let reqMWus = filter reqMWu tdvSpec in
        if falsyMW MWu \<and> reqMWus \<noteq> [] then Inl (MissingMWu (map name reqMWus))
        else
          (case ranges (knots gibbsSp) of Inl e \<Rightarrow> Inl e
           | Inr knotranges \<Rightarrow>
             (case ptmranges PTM of Inl e \<Rightarrow> Inl e
              | Inr prs \<Rightarrow>
                if length knotranges < dimCt \<or> length prs < dimCt then Inl PyIndexError
                else
                  let extrapolationDims =
                        filter (\<lambda>i. hasValsOutsideKnotRange (knotranges ! i) (prs ! i)) [0..<dimCt] in
                  if extrapolationDims \<noteq> []
                  then (if failOnExtrapolate
                        then Inl (ExtrapolationError (set (map dimLabel extrapolationDims)))
                        else Inr [WarnExtrapolation (set (map dimLabel extrapolationDims))])
                  else Inr [])))"

text \<open>A numpy \<^verbatim>\<open>int64\<close> keeps the low 64 bits of a result, read as a signed number.\<close>

definition wrap64 :: "int \<Rightarrow> int" where
  "wrap64 x = (x + 2 ^ 63) mod 2 ^ 64 - 2 ^ 63"

text \<open>\<^verbatim>\<open>np.prod\<close> of the point counts is an \<^verbatim>\<open>int64\<close> and wraps silently; so do the two
  products of \<^verbatim>\<open>outputSize\<close>, for which numpy warns of the overflow (Python shows a warning
  repeated from one line once). The memory total and its multiple are Python integers.\<close>

definition checkMemReq :: "nat \<Rightarrow> tdv list \<Rightarrow> ptm \<Rightarrow> msg list" where
  "checkMemReq vmTotal tdvSpec PTM =
     (let ptct = wrap64 (prod_list (map int (ptm_lens PTM)));
          p1 = int (length tdvSpec + 1) * ptct;
          p2 = wrap64 p1 * int floatSizeBytes;
          outputSize = wrap64 p2
      in (if wrap64 p1 \<noteq> p1 \<or> outputSize \<noteq> p2 then [WarnOverflow] else [])
         @ (if outputSize > int (vmTotal * vmWarningFactor) then [WarnMemory] else []))"

text \<open>The call passes \<open>MWv\<close> and then \<open>MWu\<close>, positionally, as the source does.\<close>

definition checkInputs ::
  "env \<Rightarrow> spline \<Rightarrow> nat \<Rightarrow> tdv list \<Rightarrow> ptm \<Rightarrow> real option \<Rightarrow> real option \<Rightarrow> bool \<Rightarrow> error + msg list" where
  "checkInputs E gibbsSp dimCt tdvSpec PTM MWv MWu failOnExtrapolate =
     (case checkSplineAndTdvs gibbsSp dimCt tdvSpec of Inl e \<Rightarrow> Inl e
      | Inr u \<Rightarrow>
        (case checkUserInput gibbsSp dimCt tdvSpec PTM MWv MWu failOnExtrapolate of Inl e \<Rightarrow> Inl e
         | Inr ws \<Rightarrow> Inr (ws @ checkMemReq (vm_total E) tdvSpec PTM)))"

section \<open>The Point-Set Normalizer\<close>

definition createThermodynamicStatesObj :: "nat \<Rightarrow> tdv list \<Rightarrow> ptm \<Rightarrow> tdvout" where
  "createThermodynamicStatesObj dimCt tdvSpec PTM =
     \<lparr>flds = set (map name tdvSpec) \<union> {''PTM''}, cls_PTM = ptm_copy PTM, inst = []\<rparr>"

definition needs0M :: "nat \<Rightarrow> real list list \<Rightarrow> tdv list \<Rightarrow> error + bool" where
  "needs0M dimCt PTM tdvSpec =
     (if dimCt = 3
      then (case idx PTM iM of Inl e \<Rightarrow> Inl e
            | Inr m \<Rightarrow> (case idx m 0 of Inl e \<Rightarrow> Inl e
                        | Inr x \<Rightarrow> Inr (x \<noteq> 0 \<and> list_ex req0M tdvSpec)))
      else Inr False)"

text \<open>The statement \<^verbatim>\<open>foo = origPTM[iP][0]\<close> under \<^verbatim>\<open>try\<close>: \<open>Inr True\<close> when it passes,
  \<open>Inr False\<close> when it raises the \<^verbatim>\<open>IndexError\<close> the handler catches, \<open>Inl\<close> for the
  \<^verbatim>\<open>TypeError\<close> of subscripting a Python number, which nothing catches.\<close>

definition probe :: "ptm \<Rightarrow> error + bool" where
  "probe orig = (case orig of
       ObjArray ds \<Rightarrow> (case idx ds iP of Inl e \<Rightarrow> Inr False
                       | Inr d \<Rightarrow> (case idx d 0 of Inl e \<Rightarrow> Inr False | Inr x \<Rightarrow> Inr True))
     | FloatArray ds \<Rightarrow> (case idx ds iP of Inl e \<Rightarrow> Inr False
                         | Inr d \<Rightarrow> (case idx d 0 of Inl e \<Rightarrow> Inr False | Inr x \<Rightarrow> Inr True))
     | Tuple xs \<Rightarrow> (case idx xs iP of Inl e \<Rightarrow> Inr False
                    | Inr (PyNum x) \<Rightarrow> Inl PyTypeError
                    | Inr (NpNum x) \<Rightarrow> Inr False))"

text \<open>\<^verbatim>\<open>PTM[i] = np.empty((1,), float); PTM[i][0] = origPTM[i]\<close>: a float slot takes a
  scalar, or an array of one element.\<close>

definition wrap_entry :: "ptm \<Rightarrow> nat \<Rightarrow> error + real list" where
  "wrap_entry orig i = (case orig of
       Tuple xs \<Rightarrow> (case idx xs i of Inl e \<Rightarrow> Inl e | Inr s \<Rightarrow> Inr [scalar_val s])
     | ObjArray ds \<Rightarrow> (case idx ds i of Inl e \<Rightarrow> Inl e
                       | Inr d \<Rightarrow> (case d of [x] \<Rightarrow> Inr [x] | _ \<Rightarrow> Inl PyValueError))
     | FloatArray ds \<Rightarrow> (case idx ds i of Inl e \<Rightarrow> Inl e
                         | Inr d \<Rightarrow> (case d of [x] \<Rightarrow> Inr [x] | _ \<Rightarrow> Inl PyValueError)))"

text \<open>The result is the address of the wrapped point set: the caller's own object when
  the probe passes, a new object array otherwise. The assignment
  \<^verbatim>\<open>PTM[iM] = np.insert(PTM[iM], 0, 0)\<close> updates the object at that address: the slot of an
  object array takes the longer sequence; a row of a float array does not (a sequence of
  \<open>n + 1\<close> floats is not broadcast into a row of \<open>n\<close>), a \<^verbatim>\<open>ValueError\<close>.\<close>

definition wrapPTM :: "heap \<Rightarrow> nat \<Rightarrow> nat \<Rightarrow> tdv list \<Rightarrow> error + heap \<times> nat" where
  "wrapPTM h origPTM dimCt tdvSpec =
     (case deref h origPTM of Inl e \<Rightarrow> Inl e
      | Inr orig \<Rightarrow>
        (case (case probe orig of Inl e \<Rightarrow> Inl e
               | Inr True \<Rightarrow> Inr (h, origPTM)
               | Inr False \<Rightarrow> (case mapE (wrap_entry orig) [0..<dimCt] of Inl e \<Rightarrow> Inl e
                               | Inr ds \<Rightarrow> Inr (alloc h (ObjArray ds)))) of
           Inl e \<Rightarrow> Inl e
         | Inr (h1, PTM) \<Rightarrow>
           (case deref h1 PTM of Inl e \<Rightarrow> Inl e
            | Inr (Tuple xs) \<Rightarrow> Inl PyTypeError
            | Inr (ObjArray ds) \<Rightarrow>
              (case needs0M dimCt ds tdvSpec of Inl e \<Rightarrow> Inl e
               | Inr True \<Rightarrow>
                   Inr (h1\<lparr>cells := (cells h1)(PTM \<mapsto> ObjArray (ds[iM := 0 # (ds ! iM)]))\<rparr>, PTM)
               | Inr False \<Rightarrow> Inr (h1, PTM))
            | Inr (FloatArray ds) \<Rightarrow>
              (case needs0M dimCt ds tdvSpec of Inl e \<Rightarrow> Inl e
               | Inr True \<Rightarrow> Inl PyValueError
               | Inr False \<Rightarrow> Inr (h1, PTM)))))"


section \<open>The Derivative Calculator\<close>

definition buildDerivDirective :: "derivSpec \<Rightarrow> nat \<Rightarrow> error + nat list" where
  "buildDerivDirective ds dimCt =
     (case (if wrtP ds \<noteq> 0 then assign (replicate dimCt defDer) iP (wrtP ds)
            else Inr (replicate dimCt defDer)) of
        Inl e \<Rightarrow> Inl e
      | Inr out1 \<Rightarrow>
        (case (if wrtT ds \<noteq> 0 then assign out1 iT (wrtT ds) else Inr out1) of
           Inl e \<Rightarrow> Inl e
         | Inr out2 \<Rightarrow> (if wrtM ds \<noteq> 0 then assign out2 iM (wrtM ds) else Inr out2)))"

text \<open>\<^verbatim>\<open>next(d for d in statevars.derivatives if d.name == dn)\<close>.\<close>

definition getDerivSpec :: "derivSpec list \<Rightarrow> string \<Rightarrow> error + derivSpec" where
  "getDerivSpec ds dn = (case find (\<lambda>d. dname d = dn) ds of
       None \<Rightarrow> Inl PyStopIteration | Some d \<Rightarrow> Inr d)"

text \<open>The set \<^verbatim>\<open>{d for t in tdvSpec for d in t.reqDerivs}\<close>, iterated in the order of first
  occurrence (Python leaves the order of a set open).\<close>

definition reqderivs :: "tdv list \<Rightarrow> string list" where
  "reqderivs tdvSpec = remdups (concat (map reqDerivs tdvSpec))"

text \<open>The loop over \<^verbatim>\<open>reqderivs\<close>, with the attributes set so far and the calls made so far.\<close>

fun derivLoop ::
  "env \<Rightarrow> spline \<Rightarrow> real list list \<Rightarrow> nat \<Rightarrow> string list \<Rightarrow> (string \<times> nd) list \<Rightarrow> call list
     \<Rightarrow> call list \<times> (error + (string \<times> nd) list)" where
  "derivLoop E gibbsSp PTM dimCt [] out cs = (cs, Inr out)"
| "derivLoop E gibbsSp PTM dimCt (rd # rds) out cs =
     (case getDerivSpec (derivatives E) rd of Inl e \<Rightarrow> (cs, Inl e)
      | Inr ds \<Rightarrow>
        (case buildDerivDirective ds dimCt of Inl e \<Rightarrow> (cs, Inl e)
         | Inr derivDirective \<Rightarrow>
             derivLoop E gibbsSp PTM dimCt rds
               (AList.update rd (evalMultivarSpline E gibbsSp PTM derivDirective) out)
               (cs @ [EvalSpline rd PTM derivDirective])))"

definition getDerivatives ::
  "env \<Rightarrow> spline \<Rightarrow> real list list \<Rightarrow> nat \<Rightarrow> tdv list \<Rightarrow> call list \<times> (error + (string \<times> nd) list)" where
  "getDerivatives E gibbsSp PTM dimCt tdvSpec =
     derivLoop E gibbsSp PTM dimCt (reqderivs tdvSpec) [] []"

definition getGriddedPTM :: "tdv list \<Rightarrow> real list list \<Rightarrow> nd list" where
  "getGriddedPTM tdvSpec PTM = (if list_ex reqGrid tdvSpec then meshgrid PTM else [])"

text \<open>\<^verbatim>\<open>1 + MWu * PTM[iM]\<close>: the subscript is evaluated before the product, and \<^verbatim>\<open>None\<close>
  times an array is a \<^verbatim>\<open>TypeError\<close>.\<close>

definition getVolSolventInVolSlnConversion :: "real option \<Rightarrow> real list list \<Rightarrow> error + nd" where
  "getVolSolventInVolSlnConversion MWu PTM =
     (case idx PTM iM of Inl e \<Rightarrow> Inl e
      | Inr m \<Rightarrow> (case MWu of None \<Rightarrow> Inl PyTypeError
                  | Some w \<Rightarrow> Inr (Ar (map (\<lambda>x. Sc (1 + w * x)) m))))"

section \<open>The Evaluation Scheduler\<close>

definition buildEvalArgs ::
  "tdv \<Rightarrow> (string \<times> nd) list \<Rightarrow> real list list \<Rightarrow> nd list option \<Rightarrow> real option \<Rightarrow> real option
     \<Rightarrow> tdvout \<Rightarrow> spline \<Rightarrow> nd option \<Rightarrow> (string \<rightharpoonup> resource)" where
  "buildEvalArgs t derivs PTM gPTM MWv MWu out gibbsSp f =
     (let args = Map.empty;
          args = (if reqDerivs t \<noteq> [] then args(parmderivs t \<mapsto> RDerivs derivs) else args);
          args = (if reqGrid t then args(parmgrid t \<mapsto> RGrid gPTM) else args);
          args = (if reqMWv t then args(parmMWv t \<mapsto> RMWv MWv) else args);
          args = (if reqMWu t then args(parmMWu t \<mapsto> RMWu MWu) else args);
          args = (if reqTDV t \<noteq> {} then args(parmtdv t \<mapsto> RTdv out) else args);
          args = (if reqSpline t then args(parmspline t \<mapsto> RSpline gibbsSp) else args);
          args = (if reqPTM t then args(parmptm t \<mapsto> RPTM PTM) else args);
          args = (if reqF t then args(parmf t \<mapsto> RF f) else args)
      in args)"

text \<open>What the loop reads but does not change, and what it changes: the completed names,
  the result object, and the calls made so far.\<close>

record evalctx =
  c_derivs :: "(string \<times> nd) list"
  c_PTM :: "real list list"
  c_gPTM :: "nd list option"
  c_MWv :: "real option"
  c_MWu :: "real option"
  c_gibbsSp :: spline
  c_f :: "nd option"

record sched =
  completedTDVs :: "string set"
  s_tdvout :: tdvout
  s_calls :: "call list"

definition tdvsToEval :: "tdv list \<Rightarrow> string set \<Rightarrow> tdv list" where
  "tdvsToEval tdvSpec completed =
     filter (\<lambda>t. name t \<notin> completed \<and> (reqTDV t = {} \<or> reqTDV t - completed = {})) tdvSpec"

text \<open>One turn of \<^verbatim>\<open>for t in tdvsToEval\<close>.\<close>

definition evalOne :: "evalctx \<Rightarrow> tdv \<Rightarrow> sched \<Rightarrow> sched" where
  "evalOne c t st =
     (let args = buildEvalArgs t (c_derivs c) (c_PTM c) (c_gPTM c) (c_MWv c) (c_MWu c)
                   (s_tdvout st) (c_gibbsSp c) (c_f c)
      in \<lparr>completedTDVs = insert (name t) (completedTDVs st),
          s_tdvout = (s_tdvout st)\<lparr>inst := AList.update (name t) (calcFn t args) (inst (s_tdvout st))\<rparr>,
          s_calls = s_calls st @ [Calc (name t) args]\<rparr>)"

fun evalBatch :: "evalctx \<Rightarrow> tdv list \<Rightarrow> sched \<Rightarrow> sched" where
  "evalBatch c [] st = st"
| "evalBatch c (t # ts) st = evalBatch c ts (evalOne c t st)"

text \<open>The \<^verbatim>\<open>while\<close> loop. It has no other exit than its condition, so a run that never
  satisfies it has no result: \<open>None\<close>.\<close>

partial_function (option) evalLoop :: "evalctx \<Rightarrow> tdv list \<Rightarrow> sched \<Rightarrow> sched option" where
  "evalLoop c tdvSpec st =
     (if card (completedTDVs st) < length tdvSpec
      then evalLoop c tdvSpec (evalBatch c (tdvsToEval tdvSpec (completedTDVs st)) st)
      else Some st)"

section \<open>The Boundary Reconciler\<close>

text \<open>\<^verbatim>\<open>tdvout.PTM\<close>: the instance's own attribute if it has one, the class's otherwise.\<close>

definition getPTM :: "tdvout \<Rightarrow> nd" where
  "getPTM out = (case map_of (inst out) ''PTM'' of Some v \<Rightarrow> v | None \<Rightarrow> cls_PTM out)"

text \<open>\<^verbatim>\<open>try: firstM = tdvout.PTM[iM][0]\<close>, \<^verbatim>\<open>except IndexError: firstM = tdvout.PTM[iM]\<close>.\<close>

definition firstM :: "tdvout \<Rightarrow> error + nd" where
  "firstM out =
     (case (case nd_index (getPTM out) iM of Inl e \<Rightarrow> Inl e | Inr m \<Rightarrow> nd_index m 0) of
        Inr x \<Rightarrow> Inr x
      | Inl e \<Rightarrow> nd_index (getPTM out) iM)"

text \<open>The loop over \<^verbatim>\<open>vars(tdvout).items()\<close>: \<^verbatim>\<open>slc[iM] = slice(1, None)\<close> is an
  \<^verbatim>\<open>IndexError\<close> when the value has no axis \<open>iM\<close>.\<close>

fun sliceAll :: "(string \<times> nd) list \<Rightarrow> error + (string \<times> nd) list" where
  "sliceAll [] = Inr []"
| "sliceAll ((p, v) # rest) =
     (if ndim v \<le> iM then Inl PyIndexError
      else (case sliceAll rest of Inl e \<Rightarrow> Inl e | Inr r \<Rightarrow> Inr ((p, sliceAx iM v) # r)))"

text \<open>\<open>sz\<close> is \<^verbatim>\<open>wrappedPTM.size\<close> and \<open>wrappedPTM\<close> the per-dimension arrays of the wrapped
  point set.\<close>

definition remove0M :: "tdvout \<Rightarrow> nat \<Rightarrow> real list list \<Rightarrow> error + tdvout" where
  "remove0M out sz wrappedPTM =
     (if sz = 3
      then (case idx wrappedPTM iM of Inl e \<Rightarrow> Inl e
            | Inr m \<Rightarrow>
              (case idx m 0 of Inl e \<Rightarrow> Inl e
               | Inr m0 \<Rightarrow>
                 if m0 = 0
                 then (case firstM out of Inl e \<Rightarrow> Inl e
                       | Inr fm \<Rightarrow>
                         (case ne0 fm of Inl e \<Rightarrow> Inl e
                          | Inr True \<Rightarrow> (case sliceAll (inst out) of Inl e \<Rightarrow> Inl e
                                         | Inr vs \<Rightarrow> Inr (out\<lparr>inst := vs\<rparr>))
                          | Inr False \<Rightarrow> Inr out))
                 else Inr out))
      else Inr out)"


section \<open>The entry point\<close>

text \<open>
  What the caller can observe of a call: the heap afterwards, the messages printed or
  warned, the outside calls made, and either the exception raised or the object returned.
  A call that never returns is \<open>None\<close>.
\<close>

record outcome =
  o_heap :: heap
  o_msgs :: "msg list"
  o_calls :: "call list"
  o_result :: "error + tdvout"

definition raised :: "heap \<Rightarrow> msg list \<Rightarrow> call list \<Rightarrow> error \<Rightarrow> outcome option" where
  "raised h ms cs e = Some \<lparr>o_heap = h, o_msgs = ms, o_calls = cs, o_result = Inl e\<rparr>"

text \<open>Lines 66 and 67 of \<^verbatim>\<open>evalSolutionGibbs\<close>: the gridded point set and the conversion
  factor, each made only if some variable asks for it.\<close>

definition gridStage :: "tdv list \<Rightarrow> real list list \<Rightarrow> nd list option" where
  "gridStage tdvSpec PTM =
     (if list_ex reqGrid tdvSpec then Some (getGriddedPTM tdvSpec PTM) else None)"

definition factorStage :: "tdv list \<Rightarrow> real option \<Rightarrow> real list list \<Rightarrow> error + nd option" where
  "factorStage tdvSpec MWu PTM =
     (if list_ex reqF tdvSpec
      then (case getVolSolventInVolSlnConversion MWu PTM of Inl e \<Rightarrow> Inl e
            | Inr v \<Rightarrow> Inr (Some v))
      else Inr None)"

text \<open>Lines 65 to 85 of \<^verbatim>\<open>evalSolutionGibbs\<close>: from \<^verbatim>\<open>getDerivatives\<close> to the
  \<^verbatim>\<open>return\<close>, on the wrapped point set, whose \<^verbatim>\<open>size\<close> is \<open>sz\<close> and whose per-dimension
  arrays are \<open>PTM\<close>.\<close>

definition compute ::
  "env \<Rightarrow> heap \<Rightarrow> msg list \<Rightarrow> spline \<Rightarrow> nat \<Rightarrow> tdv list \<Rightarrow> tdvout \<Rightarrow> nat \<Rightarrow> real list list
     \<Rightarrow> real option \<Rightarrow> real option \<Rightarrow> outcome option" where
  "compute E h ms gibbsSp dimCt tdvSpec out0 sz PTM MWv MWu =
     (case getDerivatives E gibbsSp PTM dimCt tdvSpec of
        (cs, Inl e) \<Rightarrow> raised h ms cs e
      | (cs, Inr derivs) \<Rightarrow>
        let gPTM = gridStage tdvSpec PTM in
        (case factorStage tdvSpec MWu PTM of
           Inl e \<Rightarrow> raised h ms cs e
         | Inr f \<Rightarrow>
           (case evalLoop \<lparr>c_derivs = derivs, c_PTM = PTM, c_gPTM = gPTM, c_MWv = MWv,
                            c_MWu = MWu, c_gibbsSp = gibbsSp, c_f = f\<rparr> tdvSpec
                   \<lparr>completedTDVs = {}, s_tdvout = out0, s_calls = cs\<rparr> of
              None \<Rightarrow> None
            | Some st \<Rightarrow>
              (case remove0M (s_tdvout st) sz PTM of
                 Inl e \<Rightarrow> raised h ms (s_calls st) e
               | Inr out \<Rightarrow>
                   Some \<lparr>o_heap = h, o_msgs = ms, o_calls = s_calls st, o_result = Inr out\<rparr>))))"

text \<open>The \<^verbatim>\<open>NOTE\<close> printed when the expansion added variables to a non-empty request.\<close>

definition addedNote :: "string list \<Rightarrow> tdv list \<Rightarrow> msg list" where
  "addedNote origSpec tdvSpec =
     (let addedTDVs = filter (\<lambda>n. n \<notin> set origSpec) (map name tdvSpec)
      in if origSpec \<noteq> [] \<and> addedTDVs \<noteq> [] then [Note addedTDVs] else [])"

text \<open>
  \<open>PTM\<close> is the address of the caller's point set and \<open>origSpec\<close> the requested names.
  The keyword defaults of the source (\<^verbatim>\<open>MWv=18.01528e-3\<close>, \<^verbatim>\<open>MWu=None\<close>,
  \<^verbatim>\<open>failOnExtrapolate=True\<close>) are the caller's to pass; \<^verbatim>\<open>verbose\<close> only prints timings
  and is left out.
\<close>

definition evalSolutionGibbs ::
  "env \<Rightarrow> heap \<Rightarrow> spline \<Rightarrow> nat \<Rightarrow> string list \<Rightarrow> real option \<Rightarrow> real option \<Rightarrow> bool
     \<Rightarrow> outcome option" where
  "evalSolutionGibbs E h gibbsSp PTM origSpec MWv MWu failOnExtrapolate =
     (let dimCt = length (number gibbsSp) in
      case expandTDVSpec E origSpec dimCt of Inl e \<Rightarrow> raised h [] [] e
      | Inr tdvSpec \<Rightarrow>
        let ms = addedNote origSpec tdvSpec in
        (case deref h PTM of Inl e \<Rightarrow> raised h ms [] e
         | Inr orig \<Rightarrow>
           (case checkInputs E gibbsSp dimCt tdvSpec orig MWv MWu failOnExtrapolate of
              Inl e \<Rightarrow> raised h ms [] e
            | Inr ws \<Rightarrow>
              let tdvout = createThermodynamicStatesObj dimCt tdvSpec orig in
              (case wrapPTM h PTM dimCt tdvSpec of Inl e \<Rightarrow> raised h (ms @ ws) [] e
               | Inr (h1, wrapped) \<Rightarrow>
                 (case deref h1 wrapped of Inl e \<Rightarrow> raised h1 (ms @ ws) [] e
                  | Inr (Tuple xs) \<Rightarrow> raised h1 (ms @ ws) [] PyTypeError
                  | Inr (ObjArray ds) \<Rightarrow>
                      compute E h1 (ms @ ws) gibbsSp dimCt tdvSpec tdvout
                        (ptm_size (ObjArray ds)) ds MWv MWu
                  | Inr (FloatArray ds) \<Rightarrow>
                      compute E h1 (ms @ ws) gibbsSp dimCt tdvSpec tdvout
                        (ptm_size (FloatArray ds)) ds MWv MWu)))))"

text \<open>The exceptions the validation code raises on purpose.\<close>

fun validation_error :: "error \<Rightarrow> bool" where
  "validation_error (UnknownVariable n) = True"
| "validation_error (IncompatibleSpline ns) = True"
| "validation_error (DimensionMismatch ns) = True"
| "validation_error (MissingMWv ns) = True"
| "validation_error (MissingMWu ns) = True"
| "validation_error (ExtrapolationError ds) = True"
| "validation_error e = False"


section \<open>Reading an outcome\<close>

text \<open>The derivative names the spline evaluator was called for, and the variables the
  computation functions were called for with the arguments they got, in call order.\<close>

fun splineCalls :: "call list \<Rightarrow> string list" where
  "splineCalls [] = []"
| "splineCalls (EvalSpline n p d # cs) = n # splineCalls cs"
| "splineCalls (Calc n a # cs) = splineCalls cs"

fun calcCalls :: "call list \<Rightarrow> (string \<times> (string \<rightharpoonup> resource)) list" where
  "calcCalls [] = []"
| "calcCalls (EvalSpline n p d # cs) = calcCalls cs"
| "calcCalls (Calc n a # cs) = (n, a) # calcCalls cs"

text \<open>What a descriptor's flags declare, in the words of the specification: the
  derivatives, the gridded point set, the solvent's and the solute's molecular weight, the
  growing result object, the raw spline, the raw point set and the conversion factor, each
  under the keyword the descriptor names for it; and those keywords alone.\<close>

definition declaredList :: "tdv \<Rightarrow> evalctx \<Rightarrow> tdvout \<Rightarrow> (string \<times> resource) list" where
  "declaredList t c out =
     (if reqDerivs t \<noteq> [] then [(parmderivs t, RDerivs (c_derivs c))] else []) @
     (if reqGrid t then [(parmgrid t, RGrid (c_gPTM c))] else []) @
     (if reqMWv t then [(parmMWv t, RMWv (c_MWv c))] else []) @
     (if reqMWu t then [(parmMWu t, RMWu (c_MWu c))] else []) @
     (if reqTDV t \<noteq> {} then [(parmtdv t, RTdv out)] else []) @
     (if reqSpline t then [(parmspline t, RSpline (c_gibbsSp c))] else []) @
     (if reqPTM t then [(parmptm t, RPTM (c_PTM c))] else []) @
     (if reqF t then [(parmf t, RF (c_f c))] else [])"

definition declaredKeys :: "tdv \<Rightarrow> string list" where
  "declaredKeys t =
     (if reqDerivs t \<noteq> [] then [parmderivs t] else []) @
     (if reqGrid t then [parmgrid t] else []) @
     (if reqMWv t then [parmMWv t] else []) @
     (if reqMWu t then [parmMWu t] else []) @
     (if reqTDV t \<noteq> {} then [parmtdv t] else []) @
     (if reqSpline t then [parmspline t] else []) @
     (if reqPTM t then [parmptm t] else []) @
     (if reqF t then [parmf t] else [])"

text \<open>The specification's account of the scheduler: the variables of a sequence are
  evaluated one after the other, each once; each computation function gets the declared
  resources and nothing else, and its value is stored under the variable's name in the
  result object, which the next one sees. The account gives the calls, with their
  arguments, and the result object at the end.\<close>

fun seqEval ::
  "evalctx \<Rightarrow> tdv list \<Rightarrow> tdvout \<Rightarrow> (string \<times> (string \<rightharpoonup> resource)) list \<times> tdvout" where
  "seqEval c [] out = ([], out)"
| "seqEval c (t # ts) out =
     (let args = map_of (declaredList t c out);
          r = seqEval c ts (out\<lparr>inst := inst out @ [(name t, calcFn t args)]\<rparr>)
      in ((name t, args) # fst r, snd r))"

text \<open>The scheduler's state agrees with that account for some sequence of distinct
  variables of the closure, which are the completed ones.\<close>

definition seq_inv :: "evalctx \<Rightarrow> tdv list \<Rightarrow> tdvout \<Rightarrow> sched \<Rightarrow> bool" where
  "seq_inv c tdvSpec out0 s =
     (\<exists>ts. distinct (map name ts) \<and> set ts \<subseteq> set tdvSpec
        \<and> completedTDVs s = name ` set ts
        \<and> calcCalls (s_calls s) = fst (seqEval c ts out0)
        \<and> s_tdvout s = snd (seqEval c ts out0))"






section \<open>Example inputs\<close>

text \<open>A small registry: descriptors with the keyword names of the variable catalog, a
  variable read off a derivative, one computed from another variable, one that needs the
  zero-concentration point, one that needs the solvent's molecular weight, and two that
  depend on each other.\<close>

definition mkTDV :: "string \<Rightarrow> tdv" where
  "mkTDV n = \<lparr>name = n, reqDerivs = [], reqGrid = False, reqMWv = False, reqMWu = False,
     reqTDV = {}, reqSpline = False, reqPTM = False, reqF = False, reqM = False, req0M = False,
     parmderivs = ''derivs'', parmgrid = ''gPTM'', parmMWv = ''MWv'', parmMWu = ''MWu'',
     parmtdv = ''tdv'', parmspline = ''gibbsSp'', parmptm = ''PTM'', parmf = ''f'',
     calcFn = (\<lambda>args. Sc 0)\<rparr>"

definition calc_d0 :: "(string \<rightharpoonup> resource) \<Rightarrow> nd" where
  "calc_d0 args = (case args ''derivs'' of
       Some (RDerivs ds) \<Rightarrow> (case map_of ds ''d0'' of Some v \<Rightarrow> v | None \<Rightarrow> Sc 0)
     | _ \<Rightarrow> Sc 0)"

definition calc_fromG :: "(string \<rightharpoonup> resource) \<Rightarrow> nd" where
  "calc_fromG args = (case args ''tdv'' of
       Some (RTdv out) \<Rightarrow> (case map_of (inst out) ''G'' of Some v \<Rightarrow> v | None \<Rightarrow> Sc 0)
     | _ \<Rightarrow> Sc 0)"

definition tdvG :: tdv where
  "tdvG = (mkTDV ''G'')\<lparr>reqDerivs := [''d0''], calcFn := calc_d0\<rparr>"

definition tdvH :: tdv where
  "tdvH = (mkTDV ''H'')\<lparr>reqDerivs := [''d0''], reqTDV := {''G''}, calcFn := calc_fromG\<rparr>"

definition tdvVex :: tdv where
  "tdvVex = (mkTDV ''Vex'')\<lparr>reqDerivs := [''d0''], reqM := True, req0M := True, calcFn := calc_d0\<rparr>"

definition tdvMuw :: tdv where
  "tdvMuw = (mkTDV ''muw'')\<lparr>reqDerivs := [''d0''], reqMWv := True, calcFn := calc_d0\<rparr>"

text \<open>A variable whose value is a scalar, not an array over the grid, and one that reports
  the molalities of the point set it finds in the result object, as a 1 by 1 by n array.\<close>

definition tdvK :: tdv where
  "tdvK = (mkTDV ''K'')\<lparr>calcFn := (\<lambda>args. Sc 7)\<rparr>"

definition calc_ownM :: "(string \<rightharpoonup> resource) \<Rightarrow> nd" where
  "calc_ownM args = (case args ''tdv'' of
       Some (RTdv out) \<Rightarrow> (case nd_index (cls_PTM out) 2 of Inr m \<Rightarrow> Ar [Ar [m]] | Inl e \<Rightarrow> Sc 0)
     | _ \<Rightarrow> Sc 0)"

definition tdvMol :: tdv where
  "tdvMol = (mkTDV ''mol'')\<lparr>reqTDV := {''Vex''}, calcFn := calc_ownM\<rparr>"

text \<open>A variable that has the name of the result object's point-set attribute; its value
  is 0 throughout, a 3 by 1 by 1 array.\<close>

definition tdvPTM :: tdv where
  "tdvPTM = (mkTDV ''PTM'')\<lparr>calcFn := (\<lambda>args. Ar [Ar [Ar [Sc 0]], Ar [Ar [Sc 0]], Ar [Ar [Sc 0]]])\<rparr>"

definition tdvCycX :: tdv where
  "tdvCycX = (mkTDV ''X'')\<lparr>reqTDV := {''Y''}\<rparr>"

definition tdvCycY :: tdv where
  "tdvCycY = (mkTDV ''Y'')\<lparr>reqTDV := {''X''}\<rparr>"

text \<open>An environment whose expansion answers a fixed closure and whose spline evaluator
  returns, at each grid point, the sum of the coordinates.\<close>

definition exEnv :: "tdv list \<Rightarrow> env" where
  "exEnv spec = \<lparr>expandTDVSpec = (\<lambda>ns d. Inr spec),
     derivatives = [\<lparr>dname = ''d0'', wrtP = 0, wrtT = 0, wrtM = 0\<rparr>,
                    \<lparr>dname = ''d1P'', wrtP = 1, wrtT = 0, wrtM = 0\<rparr>],
     evalMultivarSpline = (\<lambda>sp PTM derivDirective. grid_of PTM sum_list),
     vm_total = 1000000\<rparr>"

definition exSpline3 :: spline where
  "exSpline3 = \<lparr>form = ''B-'', knots = [[0, 0, 100, 100], [0, 0, 500, 500], [0, 0, 8, 8]],
     number = [2, 2, 2], order = [2, 2, 2], dim = 1, coefs = Ar []\<rparr>"

definition exSpline3_above0 :: spline where
  "exSpline3_above0 = exSpline3\<lparr>knots := [[0, 0, 100, 100], [0, 0, 500, 500], [1, 1, 8, 8]]\<rparr>"

definition exSpline2 :: spline where
  "exSpline2 = \<lparr>form = ''B-'', knots = [[0, 0, 100, 100], [0, 0, 500, 500]],
     number = [2, 2], order = [2, 2], dim = 1, coefs = Ar []\<rparr>"

text \<open>A heap holding the caller's point set at address 0.\<close>

definition hp :: "ptm \<Rightarrow> heap" where
  "hp p = \<lparr>cells = [0 \<mapsto> p], fresh = 1\<rparr>"

text \<open>A loop context and a starting state of the scheduler, and a rank under which \<open>G\<close>
  comes before the variables computed from it.\<close>

definition exCtx :: evalctx where
  "exCtx = \<lparr>c_derivs = [(''d0'', Ar [Ar [Sc 301, Sc 311]])], c_PTM = [[1], [300, 310]], c_gPTM = None,
     c_MWv = None, c_MWu = None, c_gibbsSp = exSpline2, c_f = None\<rparr>"

definition exSched :: sched where
  "exSched = \<lparr>completedTDVs = {},
     s_tdvout = \<lparr>flds = {''PTM''}, cls_PTM = Ar [], inst = []\<rparr>, s_calls = []\<rparr>"

definition exRank :: "string \<Rightarrow> nat" where
  "exRank n = (if n = ''G'' then 0 else 1)"


section \<open>Evaluation and basic facts\<close>

lemmas ex_defs = mkTDV_def calc_d0_def calc_fromG_def tdvG_def tdvH_def tdvVex_def tdvMuw_def
  tdvK_def calc_ownM_def tdvMol_def tdvPTM_def
  tdvCycX_def tdvCycY_def exEnv_def exSpline3_def exSpline3_above0_def exSpline2_def hp_def

lemma sliceAx_numeral:
  "sliceAx (numeral n) (Ar vs) = Ar (map (sliceAx (pred_numeral n)) vs)"
  by (simp add: numeral_eq_Suc)

lemmas eval_defs = evalSolutionGibbs_def compute_def raised_def addedNote_def checkInputs_def
  checkSplineAndTdvs_def checkUserInput_def checkMemReq_def createThermodynamicStatesObj_def
  wrapPTM_def probe_def needs0M_def wrap_entry_def getDerivatives_def reqderivs_def
  getDerivSpec_def buildDerivDirective_def getGriddedPTM_def getVolSolventInVolSlnConversion_def
  remove0M_def firstM_def getPTM_def ne0_def nd_index_def idx_def assign_def deref_def alloc_def
  ptmranges_def ptm_lens_def ptm_copy_def falsyMW_def hasValsOutsideKnotRange_def iP_def iT_def
  iM_def defDer_def vmWarningFactor_def floatSizeBytes_def tdvsToEval_def evalOne_def
  buildEvalArgs_def dimLabel_def scalar_val_def meshgrid_def sliceAx_numeral
  gridStage_def factorStage_def ptm_size_def ptm_rows_def wrap64_def

lemma ranges_nonempty:
  "[] \<notin> set ks \<Longrightarrow> ranges ks = Inr (map (\<lambda>k. (hd k, last k)) ks)"
  by (induction ks) auto

lemma filter_nonempty_list_ex: "filter P xs \<noteq> [] \<longleftrightarrow> list_ex P xs"
  by (induction xs) auto

section \<open>The capability check\<close>

text \<open>
  C6: for a 3-dimensional spline whose molality knots start above zero, a request whose
  expanded closure has a variable that needs zero-concentration support raises the
  incompatible-spline error, naming those variables, with no outside call made and the
  heap untouched.
\<close>

theorem incompatible_spline_raised:
  assumes "expandTDVSpec E origSpec (length (number gibbsSp)) = Inr tdvSpec"
    and "length (number gibbsSp) = 3"
    and "length (knots gibbsSp) = 3"
    and "[] \<notin> set (knots gibbsSp)"
    and "0 < hd (knots gibbsSp ! iM)"
    and "list_ex req0M tdvSpec"
    and "cells h PTM = Some orig"
  shows "evalSolutionGibbs E h gibbsSp PTM origSpec MWv MWu failOnExtrapolate =
           Some \<lparr>o_heap = h, o_msgs = addedNote origSpec tdvSpec, o_calls = [],
                 o_result = Inl (IncompatibleSpline (map name (filter req0M tdvSpec)))\<rparr>"
proof -
  have r: "ranges (knots gibbsSp) = Inr (map (\<lambda>k. (hd k, last k)) (knots gibbsSp))"
    using assms(4) by (rule ranges_nonempty)
  have f: "filter req0M tdvSpec \<noteq> []"
    using assms(6) by (simp add: filter_nonempty_list_ex)
  have c: "checkSplineAndTdvs gibbsSp 3 tdvSpec =
             Inl (IncompatibleSpline (map name (filter req0M tdvSpec)))"
    using assms(3,5) f by (simp add: checkSplineAndTdvs_def r idx_def iM_def)
  show ?thesis
    using assms(1,2,7) c by (simp add: evalSolutionGibbs_def checkInputs_def deref_def raised_def)
qed

theorem incompatible_spline_raised_witness:
  "evalSolutionGibbs (exEnv [tdvVex]) (hp (ObjArray [[1], [300, 310], [2]])) exSpline3_above0 0 [''Vex'']
      None None True =
   Some \<lparr>o_heap = hp (ObjArray [[1], [300, 310], [2]]), o_msgs = [], o_calls = [],
         o_result = Inl (IncompatibleSpline [''Vex''])\<rparr>"
  using incompatible_spline_raised [of "exEnv [tdvVex]" "[''Vex'']" exSpline3_above0 "[tdvVex]"
      "hp (ObjArray [[1], [300, 310], [2]])" 0 "ObjArray [[1], [300, 310], [2]]" None None True]
  by (simp add: ex_defs iM_def addedNote_def)

text \<open>
  C7: for a 2-dimensional spline, a request whose expanded closure has a variable that
  needs molality or the conversion factor raises the dimension-mismatch error, naming
  those variables, with no outside call made and the heap untouched.
\<close>

theorem dimension_mismatch_raised:
  assumes "expandTDVSpec E origSpec (length (number gibbsSp)) = Inr tdvSpec"
    and "length (number gibbsSp) = 2"
    and "[] \<notin> set (knots gibbsSp)"
    and "list_ex (\<lambda>t. reqF t \<or> reqM t) tdvSpec"
    and "cells h PTM = Some orig"
  shows "evalSolutionGibbs E h gibbsSp PTM origSpec MWv MWu failOnExtrapolate =
           Some \<lparr>o_heap = h, o_msgs = addedNote origSpec tdvSpec, o_calls = [],
                 o_result = Inl (DimensionMismatch
                                  (set (map name (filter (\<lambda>t. reqF t \<or> reqM t) tdvSpec))))\<rparr>"
proof -
  have r: "ranges (knots gibbsSp) = Inr (map (\<lambda>k. (hd k, last k)) (knots gibbsSp))"
    using assms(3) by (rule ranges_nonempty)
  have f: "filter (\<lambda>t. reqF t \<or> reqM t) tdvSpec \<noteq> []"
    using assms(4) by (simp add: filter_nonempty_list_ex)
  have c: "checkSplineAndTdvs gibbsSp 2 tdvSpec =
             Inl (DimensionMismatch (set (map name (filter (\<lambda>t. reqF t \<or> reqM t) tdvSpec))))"
    using f by (simp add: checkSplineAndTdvs_def r)
  show ?thesis
    using assms(1,2,5) c by (simp add: evalSolutionGibbs_def checkInputs_def deref_def raised_def)
qed

theorem dimension_mismatch_raised_witness:
  "evalSolutionGibbs (exEnv [tdvVex]) (hp (ObjArray [[1], [300, 310]])) exSpline2 0 [''Vex'']
      None None True =
   Some \<lparr>o_heap = hp (ObjArray [[1], [300, 310]]), o_msgs = [], o_calls = [],
         o_result = Inl (DimensionMismatch {''Vex''})\<rparr>"
  using dimension_mismatch_raised [of "exEnv [tdvVex]" "[''Vex'']" exSpline2 "[tdvVex]"
      "hp (ObjArray [[1], [300, 310]])" 0 "ObjArray [[1], [300, 310]]" None None True]
  by (simp add: ex_defs addedNote_def)

section \<open>The parameter check\<close>

text \<open>
  C1: a closure with a variable flagged \<open>reqMWv\<close> and a zero or absent solvent weight
  must fail naming that variable. The code does not: \<open>checkInputs\<close> hands \<open>MWv\<close> to the
  parameter \<open>checkUserInput\<close> calls \<open>MWu\<close>, and \<open>MWu\<close> to the one it calls \<open>MWv\<close>. With
  \<open>MWv = 0\<close> and a solute weight given, the variable \<open>muw\<close> is computed and returned; with
  the solvent weight given and no solute weight, the call claims the solvent weight is
  missing.
\<close>

theorem solvent_weight_check_reads_solute_weight:
  "map_option o_result
     (evalSolutionGibbs (exEnv [tdvMuw]) (hp (ObjArray [[1], [300, 310]])) exSpline2 0 [''muw'']
        (Some 0) (Some 0.05) True) =
     Some (Inr \<lparr>flds = {''PTM'', ''muw''}, cls_PTM = Ar [Ar [Sc 1], Ar [Sc 300, Sc 310]],
                inst = [(''muw'', Ar [Ar [Sc 301, Sc 311]])]\<rparr>)
   \<and> map_option o_result
     (evalSolutionGibbs (exEnv [tdvMuw]) (hp (ObjArray [[1], [300, 310]])) exSpline2 0 [''muw'']
        (Some 0.018) None True) =
     Some (Inl (MissingMWv [''muw'']))"
  by (simp add: eval_defs ex_defs evalLoop.simps)

section \<open>Single-point requests\<close>

text \<open>
  C8: a single-point request must return arrays of one element. For the point \<^verbatim>\<open>(0, 0)\<close>
  of the repository's own single-point test, a tuple of Python numbers, the probe
  \<^verbatim>\<open>origPTM[iP][0]\<close> of \<open>wrapPTM\<close> subscripts a Python \<^verbatim>\<open>int\<close>: a \<^verbatim>\<open>TypeError\<close>, which the
  handler for \<^verbatim>\<open>IndexError\<close> does not catch. The call raises and returns no object.
\<close>

theorem single_point_of_python_numbers_raises:
  "evalSolutionGibbs (exEnv [tdvG]) (hp (Tuple [PyNum 0, PyNum 0])) exSpline2 0 []
      (Some 0.018) None True =
   Some \<lparr>o_heap = hp (Tuple [PyNum 0, PyNum 0]), o_msgs = [], o_calls = [],
         o_result = Inl PyTypeError\<rparr>"
  by (simp add: eval_defs ex_defs evalLoop.simps)


section \<open>Validation comes first\<close>

text \<open>Past \<open>checkInputs\<close>, what can be raised is a Python run-time error, never one of the
  validation errors.\<close>

lemma mapE_Inl: "mapE f xs = Inl e \<Longrightarrow> \<exists>x\<in>set xs. f x = Inl e"
  by (induction xs) (auto split: sum.splits)

lemma idx_Inl: "idx xs i = Inl e \<Longrightarrow> e = PyIndexError"
  by (auto simp: idx_def split: if_splits)

lemma assign_Inl: "assign xs i v = Inl e \<Longrightarrow> e = PyIndexError"
  by (auto simp: assign_def split: if_splits)

lemma wrap_entry_Inl: "wrap_entry orig i = Inl e \<Longrightarrow> \<not> validation_error e"
  by (auto simp: wrap_entry_def dest!: idx_Inl split: ptm.splits sum.splits list.splits)

lemma probe_Inl: "probe orig = Inl e \<Longrightarrow> \<not> validation_error e"
  by (auto simp: probe_def split: ptm.splits sum.splits scalar.splits)

lemma needs0M_Inl: "needs0M dimCt PTM tdvSpec = Inl e \<Longrightarrow> \<not> validation_error e"
  by (auto simp: needs0M_def dest!: idx_Inl split: if_splits sum.splits)

lemma deref_Inl: "deref h a = Inl e \<Longrightarrow> \<not> validation_error e"
  by (auto simp: deref_def split: option.splits)

lemma wrapPTM_Inl: "wrapPTM h origPTM dimCt tdvSpec = Inl e \<Longrightarrow> \<not> validation_error e"
  unfolding wrapPTM_def
  by (auto dest!: deref_Inl probe_Inl needs0M_Inl mapE_Inl wrap_entry_Inl
      split: sum.splits bool.splits ptm.splits prod.splits)

lemma buildDerivDirective_Inl: "buildDerivDirective ds dimCt = Inl e \<Longrightarrow> \<not> validation_error e"
  by (auto simp: buildDerivDirective_def dest!: assign_Inl split: if_splits sum.splits)

lemma getDerivSpec_Inl: "getDerivSpec ds dn = Inl e \<Longrightarrow> \<not> validation_error e"
  by (auto simp: getDerivSpec_def split: option.splits)

lemma derivLoop_Inl:
  "derivLoop E gibbsSp PTM dimCt rds out cs = (cs', Inl e) \<Longrightarrow> \<not> validation_error e"
  by (induction rds arbitrary: out cs)
     (auto dest!: getDerivSpec_Inl buildDerivDirective_Inl split: sum.splits)

lemma getVol_Inl: "getVolSolventInVolSlnConversion MWu PTM = Inl e \<Longrightarrow> \<not> validation_error e"
  by (auto simp: getVolSolventInVolSlnConversion_def dest!: idx_Inl split: sum.splits option.splits)

lemma factorStage_Inl: "factorStage tdvSpec MWu PTM = Inl e \<Longrightarrow> \<not> validation_error e"
  by (auto simp: factorStage_def dest!: getVol_Inl split: if_splits sum.splits)

lemma sliceAll_Inl: "sliceAll vs = Inl e \<Longrightarrow> e = PyIndexError"
  by (induction vs rule: sliceAll.induct) (auto split: if_splits sum.splits)

lemma nd_index_Inl: "nd_index v i = Inl e \<Longrightarrow> e = PyIndexError"
  by (auto simp: nd_index_def dest!: idx_Inl split: nd.splits)

lemma firstM_Inl: "firstM out = Inl e \<Longrightarrow> e = PyIndexError"
  by (auto simp: firstM_def dest!: nd_index_Inl split: sum.splits)

lemma ne0_Inl: "ne0 v = Inl e \<Longrightarrow> e = PyValueError"
  by (auto simp: ne0_def split: list.splits)

lemma remove0M_Inl: "remove0M out sz PTM = Inl e \<Longrightarrow> \<not> validation_error e"
  unfolding remove0M_def
  by (auto dest!: idx_Inl firstM_Inl ne0_Inl sliceAll_Inl split: if_splits sum.splits bool.splits)

lemma compute_Inl:
  assumes "compute E h ms gibbsSp dimCt tdvSpec out0 sz PTM MWv MWu = Some oc"
    and "o_result oc = Inl e"
  shows "\<not> validation_error e"
  using assms unfolding compute_def raised_def getDerivatives_def
  by (auto dest!: derivLoop_Inl factorStage_Inl remove0M_Inl
      split: prod.splits sum.splits if_splits option.splits)

text \<open>
  C4: whenever the call raises a validation error (unknown variable, incompatible spline,
  dimension mismatch, missing molecular weight, extrapolation), no spline evaluation and
  no variable computation has been made, the caller's heap is as it was, and the caller
  gets the error and no result object (the outcome's result is \<open>Inl\<close>).
\<close>

theorem validation_errors_precede_computation:
  assumes "evalSolutionGibbs E h gibbsSp PTM origSpec MWv MWu failOnExtrapolate = Some oc"
    and "o_result oc = Inl e"
    and "validation_error e"
  shows "o_calls oc = [] \<and> o_heap oc = h"
  using assms unfolding evalSolutionGibbs_def raised_def Let_def
  by (auto dest!: deref_Inl wrapPTM_Inl dest: compute_Inl
      split: sum.splits ptm.splits prod.splits)


theorem validation_errors_precede_computation_witness:
  "evalSolutionGibbs (exEnv [tdvG]) (hp (ObjArray [[1], [300, 600]])) exSpline2 0 [] None None True =
     Some \<lparr>o_heap = hp (ObjArray [[1], [300, 600]]), o_msgs = [], o_calls = [],
           o_result = Inl (ExtrapolationError {''T''})\<rparr>
   \<and> validation_error (ExtrapolationError {''T''})"
  using validation_errors_precede_computation [of "exEnv [tdvG]" "hp (ObjArray [[1], [300, 600]])"
      exSpline2 0 "[]" None None True
      "\<lparr>o_heap = hp (ObjArray [[1], [300, 600]]), o_msgs = [], o_calls = [],
        o_result = Inl (ExtrapolationError {''T''})\<rparr>" "ExtrapolationError {''T''}"]
  by (simp add: eval_defs ex_defs)


section \<open>The scheduler loop: invariants\<close>

text \<open>A property that holds when the loop starts and that every pass keeps holds when the
  loop returns, together with the negated loop condition.\<close>

lemma splineCalls_append: "splineCalls (xs @ ys) = splineCalls xs @ splineCalls ys"
  by (induction xs rule: splineCalls.induct) auto

lemma calcCalls_append: "calcCalls (xs @ ys) = calcCalls xs @ calcCalls ys"
  by (induction xs rule: calcCalls.induct) auto

lemma evalLoop_invariant_aux:
  "evalLoop c' spec' st' = Some r' \<Longrightarrow>
   c' = c \<and> spec' = tdvSpec
     \<and> (\<forall>s. I s \<and> card (completedTDVs s) < length tdvSpec
            \<longrightarrow> I (evalBatch c (tdvsToEval tdvSpec (completedTDVs s)) s))
     \<and> I st'
   \<longrightarrow> I r' \<and> \<not> card (completedTDVs r') < length tdvSpec"
  by (rule evalLoop.raw_induct [where P = "\<lambda>c' spec' st' r'.
        c' = c \<and> spec' = tdvSpec
          \<and> (\<forall>s. I s \<and> card (completedTDVs s) < length tdvSpec
                 \<longrightarrow> I (evalBatch c (tdvsToEval tdvSpec (completedTDVs s)) s))
          \<and> I st'
        \<longrightarrow> I r' \<and> \<not> card (completedTDVs r') < length tdvSpec"])
     (auto split: if_splits)

lemma evalLoop_invariant:
  assumes "evalLoop c tdvSpec st = Some r"
    and "\<And>s. I s \<Longrightarrow> card (completedTDVs s) < length tdvSpec
           \<Longrightarrow> I (evalBatch c (tdvsToEval tdvSpec (completedTDVs s)) s)"
    and "I st"
  shows "I r \<and> \<not> card (completedTDVs r) < length tdvSpec"
  using evalLoop_invariant_aux [OF assms(1), of c tdvSpec I] assms(2,3) by blast

lemma evalBatch_completed:
  "completedTDVs (evalBatch c ts st) = completedTDVs st \<union> name ` set ts"
  by (induction ts arbitrary: st) (auto simp: evalOne_def Let_def)

lemma evalBatch_splineCalls:
  "splineCalls (s_calls (evalBatch c ts st)) = splineCalls (s_calls st)"
  by (induction ts arbitrary: st) (auto simp: evalOne_def Let_def splineCalls_append)

lemma evalLoop_splineCalls:
  assumes "evalLoop c tdvSpec st = Some r"
  shows "splineCalls (s_calls r) = splineCalls (s_calls st)"
  using evalLoop_invariant [OF assms, of "\<lambda>s. splineCalls (s_calls s) = splineCalls (s_calls st)"]
  by (simp add: evalBatch_splineCalls)

lemma derivLoop_calls:
  "derivLoop E gibbsSp PTM dimCt rds out cs = (cs', r) \<Longrightarrow>
     \<exists>k. splineCalls cs' = splineCalls cs @ take k rds \<and> (\<forall>v. r = Inr v \<longrightarrow> k = length rds)"
proof (induction rds arbitrary: out cs)
  case Nil
  then show ?case by auto
next
  case (Cons rd rds)
  show ?case
  proof (cases "getDerivSpec (derivatives E) rd")
    case (Inl e)
    with Cons.prems show ?thesis by (intro exI [of _ 0]) auto
  next
    case (Inr ds)
    show ?thesis
    proof (cases "buildDerivDirective ds dimCt")
      case (Inl e)
      with Cons.prems Inr show ?thesis by (intro exI [of _ 0]) auto
    next
      case dir: (Inr derivDirective)
      from Cons.prems Inr dir obtain k where
        "splineCalls cs' = splineCalls (cs @ [EvalSpline rd PTM derivDirective]) @ take k rds"
        "\<forall>v. r = Inr v \<longrightarrow> k = length rds"
        using Cons.IH by fastforce
      then show ?thesis
        by (intro exI [of _ "Suc k"]) (simp add: splineCalls_append)
    qed
  qed
qed

lemma count_list_remdups: "count_list (remdups xs) d = (if d \<in> set xs then 1 else 0)"
  by (induction xs) auto

lemma count_list_take_le: "count_list (take k xs) d \<le> count_list xs d"
proof (induction xs arbitrary: k)
  case Nil
  then show ?case by simp
next
  case (Cons x xs)
  then show ?case by (cases k) (auto intro: le_SucI)
qed

lemma compute_splineCalls:
  assumes "compute E h ms gibbsSp dimCt tdvSpec out0 sz PTM MWv MWu = Some oc"
  shows "\<exists>k. splineCalls (o_calls oc) = take k (reqderivs tdvSpec)
            \<and> (\<forall>out. o_result oc = Inr out \<longrightarrow> k = length (reqderivs tdvSpec))"
proof -
  obtain cs r where d: "getDerivatives E gibbsSp PTM dimCt tdvSpec = (cs, r)"
    by (cases "getDerivatives E gibbsSp PTM dimCt tdvSpec")
  then obtain k where k: "splineCalls cs = take k (reqderivs tdvSpec)"
      "\<forall>v. r = Inr v \<longrightarrow> k = length (reqderivs tdvSpec)"
    using derivLoop_calls [of E gibbsSp PTM dimCt "reqderivs tdvSpec" "[]" "[]" cs r]
    by (auto simp: getDerivatives_def)
  have "splineCalls (o_calls oc) = splineCalls cs"
    using assms d unfolding compute_def raised_def
    by (auto split: sum.splits if_splits option.splits dest: evalLoop_splineCalls)
  moreover have "\<exists>v. r = Inr v" if "o_result oc = Inr out" for out
    using assms d that unfolding compute_def raised_def
    by (auto split: sum.splits if_splits option.splits)
  ultimately show ?thesis using k by (intro exI [of _ k]) auto
qed

text \<open>
  C9: the spline evaluator is never called twice for the same derivative, and in a call
  that returns it has been called exactly once for each derivative that some variable of
  the expanded closure requires, however many variables require it, and for no other.
\<close>

theorem each_derivative_evaluated_once:
  assumes "evalSolutionGibbs E h gibbsSp PTM origSpec MWv MWu failOnExtrapolate = Some oc"
    and "expandTDVSpec E origSpec (length (number gibbsSp)) = Inr tdvSpec"
  shows "count_list (splineCalls (o_calls oc)) d \<le> 1
       \<and> (o_result oc = Inr out \<longrightarrow>
            count_list (splineCalls (o_calls oc)) d =
              (if d \<in> (\<Union>t\<in>set tdvSpec. set (reqDerivs t)) then 1 else 0))"
proof -
  have "\<exists>k. splineCalls (o_calls oc) = take k (reqderivs tdvSpec)
            \<and> (\<forall>out. o_result oc = Inr out \<longrightarrow> k = length (reqderivs tdvSpec))"
    using assms unfolding evalSolutionGibbs_def raised_def Let_def
    by (auto split: sum.splits ptm.splits prod.splits dest!: compute_splineCalls)
  then obtain k where k: "splineCalls (o_calls oc) = take k (reqderivs tdvSpec)"
    "o_result oc = Inr out \<longrightarrow> k = length (reqderivs tdvSpec)" by blast
  have c: "count_list (reqderivs tdvSpec) d = (if d \<in> (\<Union>t\<in>set tdvSpec. set (reqDerivs t)) then 1 else 0)"
    by (simp add: reqderivs_def count_list_remdups)
  have "count_list (splineCalls (o_calls oc)) d \<le> count_list (reqderivs tdvSpec) d"
    by (simp add: k(1) count_list_take_le)
  with c have "count_list (splineCalls (o_calls oc)) d \<le> 1" by (simp split: if_splits)
  moreover have "count_list (splineCalls (o_calls oc)) d =
      (if d \<in> (\<Union>t\<in>set tdvSpec. set (reqDerivs t)) then 1 else 0)" if "o_result oc = Inr out"
    using that k c by simp
  ultimately show ?thesis by blast
qed


theorem each_derivative_evaluated_once_witness:
  "\<exists>oc out. evalSolutionGibbs (exEnv [tdvG, tdvH]) (hp (ObjArray [[1], [300, 310]])) exSpline2 0
              [''G'', ''H''] None None True = Some oc
     \<and> o_result oc = Inr out
     \<and> count_list (splineCalls (o_calls oc)) ''d0'' = 1"
proof -
  have "\<exists>oc. evalSolutionGibbs (exEnv [tdvG, tdvH]) (hp (ObjArray [[1], [300, 310]])) exSpline2 0
              [''G'', ''H''] None None True = Some oc \<and> (\<exists>out. o_result oc = Inr out)"
    by (simp add: eval_defs ex_defs evalLoop.simps)
  then obtain oc out where run:
      "evalSolutionGibbs (exEnv [tdvG, tdvH]) (hp (ObjArray [[1], [300, 310]])) exSpline2 0
              [''G'', ''H''] None None True = Some oc"
    and res: "o_result oc = Inr out" by blast
  have "expandTDVSpec (exEnv [tdvG, tdvH]) [''G'', ''H''] (length (number exSpline2))
          = Inr [tdvG, tdvH]"
    by (simp add: ex_defs)
  from each_derivative_evaluated_once [OF run this, of "''d0''" out] res
  have "count_list (splineCalls (o_calls oc)) ''d0'' = 1"
    by (simp add: ex_defs)
  with run res show ?thesis by blast
qed


section \<open>The caller's point set\<close>

lemma ranges_Inr: "ranges ks = Inr rs \<Longrightarrow> [] \<notin> set ks"
  by (induction ks arbitrary: rs) (auto split: if_splits sum.splits)

lemma checkInputs_nonempty:
  assumes "checkInputs E gibbsSp dimCt tdvSpec (ObjArray ds) MWv MWu failOnExtrapolate = Inr ws"
  shows "[] \<notin> set ds"
  using assms unfolding checkInputs_def checkUserInput_def Let_def ptmranges_def
  by (auto split: sum.splits if_splits dest: ranges_Inr)

lemma compute_heap:
  "compute E h ms gibbsSp dimCt tdvSpec out0 sz PTM MWv MWu = Some oc \<Longrightarrow> o_heap oc = h"
  unfolding compute_def raised_def
  by (auto split: prod.splits sum.splits if_splits option.splits)

lemma wrapPTM_inject:
  assumes "cells h PTM = Some (ObjArray [P, T, m # M])" and "P \<noteq> []" and "m \<noteq> 0"
    and "list_ex req0M tdvSpec"
  shows "wrapPTM h PTM 3 tdvSpec =
           Inr (h\<lparr>cells := (cells h)(PTM \<mapsto> ObjArray [P, T, 0 # m # M])\<rparr>, PTM)"
  using assms
  by (cases P) (simp_all add: wrapPTM_def deref_def probe_def idx_def iP_def iM_def needs0M_def)

text \<open>
  C10: when the caller passes an array of per-dimension arrays for a 3-dimensional spline,
  the closure has a variable that needs zero concentration, and the first molality is not
  zero, then after the call has returned the caller's own array holds the molality
  sequence with the injected leading 0.
\<close>

theorem caller_point_set_keeps_injected_zero:
  assumes "evalSolutionGibbs E h gibbsSp PTM origSpec MWv MWu failOnExtrapolate = Some oc"
    and "o_result oc = Inr out"
    and "expandTDVSpec E origSpec (length (number gibbsSp)) = Inr tdvSpec"
    and "length (number gibbsSp) = 3"
    and "cells h PTM = Some (ObjArray [P, T, m # M])"
    and "m \<noteq> 0"
    and "list_ex req0M tdvSpec"
  shows "cells (o_heap oc) PTM = Some (ObjArray [P, T, 0 # m # M])"
proof -
  obtain ws where ws: "checkInputs E gibbsSp 3 tdvSpec (ObjArray [P, T, m # M]) MWv MWu
                         failOnExtrapolate = Inr ws"
    using assms(1,2,3,4,5) unfolding evalSolutionGibbs_def raised_def Let_def deref_def
    by (auto split: sum.splits)
  then have "P \<noteq> []" using checkInputs_nonempty by fastforce
  with assms(5,6,7) have w: "wrapPTM h PTM 3 tdvSpec =
      Inr (h\<lparr>cells := (cells h)(PTM \<mapsto> ObjArray [P, T, 0 # m # M])\<rparr>, PTM)"
    by (simp add: wrapPTM_inject)
  have "o_heap oc = h\<lparr>cells := (cells h)(PTM \<mapsto> ObjArray [P, T, 0 # m # M])\<rparr>"
    using assms(1,3,4,5) ws w unfolding evalSolutionGibbs_def Let_def deref_def
    by (auto dest: compute_heap)
  then show ?thesis by simp
qed


theorem caller_point_set_keeps_injected_zero_witness:
  "\<exists>oc out. evalSolutionGibbs (exEnv [tdvVex]) (hp (ObjArray [[1], [300, 310], [2]])) exSpline3 0
              [''Vex''] None None True = Some oc
     \<and> o_result oc = Inr out
     \<and> cells (o_heap oc) 0 = Some (ObjArray [[1], [300, 310], [0, 2]])"
proof -
  have "\<exists>oc. evalSolutionGibbs (exEnv [tdvVex]) (hp (ObjArray [[1], [300, 310], [2]])) exSpline3 0
              [''Vex''] None None True = Some oc \<and> (\<exists>out. o_result oc = Inr out)"
    by (simp add: eval_defs ex_defs evalLoop.simps)
  then obtain oc out where run:
      "evalSolutionGibbs (exEnv [tdvVex]) (hp (ObjArray [[1], [300, 310], [2]])) exSpline3 0
              [''Vex''] None None True = Some oc"
    and res: "o_result oc = Inr out" by blast
  have "cells (o_heap oc) 0 = Some (ObjArray [[1], [300, 310], [0, 2]])"
    by (rule caller_point_set_keeps_injected_zero [OF run res, of "[tdvVex]"])
       (simp_all add: ex_defs)
  with run res show ?thesis by blast
qed

section \<open>The scheduler's bookkeeping\<close>





lemma tdvsToEval_subset: "set (tdvsToEval tdvSpec completed) \<subseteq> set tdvSpec"
  by (auto simp: tdvsToEval_def)

lemma tdvsToEval_fresh: "t \<in> set (tdvsToEval tdvSpec completed) \<Longrightarrow> name t \<notin> completed"
  by (auto simp: tdvsToEval_def)

lemma tdvsToEval_distinct:
  "distinct (map name tdvSpec) \<Longrightarrow> distinct (map name (tdvsToEval tdvSpec completed))"
  by (simp add: tdvsToEval_def distinct_map_filter)

lemma loop_exit_distinct:
  assumes "completed \<subseteq> name ` set tdvSpec" and "\<not> card completed < length tdvSpec"
  shows "distinct (map name tdvSpec) \<and> completed = name ` set tdvSpec"
proof -
  have "card completed \<le> card (name ` set tdvSpec)"
    using assms(1) by (simp add: card_mono)
  moreover have "card (name ` set tdvSpec) \<le> length tdvSpec"
    using card_length [of "map name tdvSpec"] by simp
  ultimately have eq: "card (name ` set tdvSpec) = length tdvSpec"
    and eq': "card completed = card (name ` set tdvSpec)"
    using assms(2) by auto
  have "distinct (map name tdvSpec)"
    using eq by (simp add: card_distinct)
  moreover have "completed = name ` set tdvSpec"
    using assms(1) eq' by (simp add: card_subset_eq)
  ultimately show ?thesis by simp
qed

lemma evalLoop_completed:
  assumes "evalLoop c tdvSpec st = Some r" and "completedTDVs st \<subseteq> name ` set tdvSpec"
  shows "distinct (map name tdvSpec) \<and> completedTDVs r = name ` set tdvSpec"
proof -
  have "completedTDVs r \<subseteq> name ` set tdvSpec \<and> \<not> card (completedTDVs r) < length tdvSpec"
    using assms(2)
    by (intro evalLoop_invariant [OF assms(1), of "\<lambda>s. completedTDVs s \<subseteq> name ` set tdvSpec"])
       (auto simp: evalBatch_completed tdvsToEval_def)
  then show ?thesis using loop_exit_distinct by blast
qed



lemma derivLoop_calcCalls:
  "derivLoop E gibbsSp PTM dimCt rds out cs = (cs', r) \<Longrightarrow> calcCalls cs' = calcCalls cs"
  by (induction rds arbitrary: out cs) (auto simp: calcCalls_append split: sum.splits)

section \<open>Termination of the scheduler\<close>

text \<open>A pass that finds nothing to evaluate leaves the state as it is, so the loop
  condition holds again: the loop has no result.\<close>

lemma evalLoop_not_stuck:
  "evalLoop c tdvSpec st = Some r \<Longrightarrow>
     \<not> (card (completedTDVs st) < length tdvSpec \<and> tdvsToEval tdvSpec (completedTDVs st) = [])"
  by (rule evalLoop.raw_induct [where P = "\<lambda>c tdvSpec st r.
        \<not> (card (completedTDVs st) < length tdvSpec \<and> tdvsToEval tdvSpec (completedTDVs st) = [])"])
     (auto split: if_splits)

lemma evalLoop_stuck:
  assumes "card (completedTDVs st) < length tdvSpec"
    and "tdvsToEval tdvSpec (completedTDVs st) = []"
  shows "evalLoop c tdvSpec st = None"
  using assms evalLoop_not_stuck [of c tdvSpec st] by (cases "evalLoop c tdvSpec st") auto

text \<open>In an acyclic closure with distinct names that holds every dependency, a pass over
  an incomplete state finds a variable to evaluate: one of least rank among those not
  yet completed.\<close>

lemma eligible_exists:
  assumes sub: "completed \<subseteq> name ` set tdvSpec"
    and lt: "card completed < length tdvSpec"
    and dist: "distinct (map name tdvSpec)"
    and acyc: "\<forall>t\<in>set tdvSpec. \<forall>d\<in>reqTDV t. d \<in> name ` set tdvSpec \<and> (rank d :: nat) < rank (name t)"
  shows "tdvsToEval tdvSpec completed \<noteq> []"
proof -
  have "card (name ` set tdvSpec) = length tdvSpec"
    using dist distinct_card [of "map name tdvSpec"] by simp
  with lt sub have "completed \<noteq> name ` set tdvSpec" by auto
  with sub obtain u where u: "u \<in> set tdvSpec" "name u \<notin> completed" by auto
  define Q where "Q t \<longleftrightarrow> t \<in> set tdvSpec \<and> name t \<notin> completed" for t
  from u have "Q u" by (simp add: Q_def)
  then obtain t where t: "Q t" and least: "\<forall>y. Q y \<longrightarrow> rank (name t) \<le> rank (name y)"
    using ex_has_least_nat [of Q u "\<lambda>t. rank (name t)"] by blast
  have "reqTDV t - completed = {}"
  proof (rule ccontr)
    assume "reqTDV t - completed \<noteq> {}"
    then obtain d where d: "d \<in> reqTDV t" "d \<notin> completed" by auto
    with t acyc have "d \<in> name ` set tdvSpec" "rank d < rank (name t)"
      by (auto simp: Q_def)
    then obtain y where "y \<in> set tdvSpec" "name y = d" by auto
    with d(2) have "Q y" by (simp add: Q_def)
    with least have "rank (name t) \<le> rank (name y)" by blast
    with \<open>rank d < rank (name t)\<close> \<open>name y = d\<close> show False by simp
  qed
  with t have "t \<in> set (tdvsToEval tdvSpec completed)"
    by (simp add: tdvsToEval_def Q_def)
  then show ?thesis by auto
qed

lemma evalLoop_returns:
  assumes dist: "distinct (map name tdvSpec)"
    and acyc: "\<forall>t\<in>set tdvSpec. \<forall>d\<in>reqTDV t. d \<in> name ` set tdvSpec \<and> (rank d :: nat) < rank (name t)"
    and sub: "completedTDVs st \<subseteq> name ` set tdvSpec"
  shows "\<exists>r. evalLoop c tdvSpec st = Some r"
  using sub
proof (induction "length tdvSpec - card (completedTDVs st)" arbitrary: st rule: less_induct)
  case less
  show ?case
  proof (cases "card (completedTDVs st) < length tdvSpec")
    case False
    then show ?thesis by (subst evalLoop.simps) simp
  next
    case True
    let ?ts = "tdvsToEval tdvSpec (completedTDVs st)"
    let ?st' = "evalBatch c ?ts st"
    have fin: "finite (name ` set tdvSpec)" by simp
    have ne: "?ts \<noteq> []"
      using less.prems True dist acyc by (rule eligible_exists)
    then obtain t where t: "t \<in> set ?ts" by (cases ?ts) auto
    then have fresh: "name t \<notin> completedTDVs st" by (rule tdvsToEval_fresh)
    have sub': "completedTDVs ?st' \<subseteq> name ` set tdvSpec"
      using less.prems by (auto simp: evalBatch_completed tdvsToEval_def)
    have "completedTDVs st \<subset> completedTDVs ?st'"
      using t fresh by (auto simp: evalBatch_completed)
    then have "card (completedTDVs st) < card (completedTDVs ?st')"
      using sub' fin by (meson finite_subset psubset_card_mono)
    with True have "length tdvSpec - card (completedTDVs ?st') < length tdvSpec - card (completedTDVs st)"
      by simp
    from less.hyps [OF this sub'] obtain r where "evalLoop c tdvSpec ?st' = Some r" by blast
    with True have "evalLoop c tdvSpec st = Some r" by (subst evalLoop.simps) simp
    then show ?thesis by blast
  qed
qed

text \<open>
  C2, as stated, fails: the loop has no exit but its condition and raises no
  dependency-cycle error. For a closure of two variables that depend on each other the
  call never returns.
\<close>

theorem scheduler_cycle_counterexample:
  "evalSolutionGibbs (exEnv [tdvCycX, tdvCycY]) (hp (ObjArray [[1], [300, 310]])) exSpline2 0 [''X'', ''Y'']
      None None True = None"
proof -
  have "evalLoop c [tdvCycX, tdvCycY] \<lparr>completedTDVs = {}, s_tdvout = out, s_calls = cs\<rparr> = None" for c out cs
    by (rule evalLoop_stuck) (simp_all add: tdvsToEval_def tdvCycX_def tdvCycY_def mkTDV_def)
  then show ?thesis
    by (simp add: eval_defs ex_defs)
qed

text \<open>
  C2, amended: when a pass finds no eligible variable while the completed set is smaller
  than the closure, the loop never returns; it returns for every closure with distinct
  names whose dependencies lie in the closure and are acyclic (they decrease some rank).
\<close>

theorem scheduler_returns_or_spins:
  "(card (completedTDVs st) < length tdvSpec \<and> tdvsToEval tdvSpec (completedTDVs st) = []
      \<longrightarrow> evalLoop c tdvSpec st = None)
   \<and> (distinct (map name tdvSpec)
        \<and> (\<forall>t\<in>set tdvSpec. \<forall>d\<in>reqTDV t. d \<in> name ` set tdvSpec \<and> (rank d :: nat) < rank (name t))
        \<and> completedTDVs st \<subseteq> name ` set tdvSpec
      \<longrightarrow> (\<exists>r. evalLoop c tdvSpec st = Some r))"
  using evalLoop_stuck [of st tdvSpec c] evalLoop_returns [of tdvSpec rank st c] by blast

theorem scheduler_returns_or_spins_witness:
  "evalLoop exCtx [tdvCycX, tdvCycY] exSched = None
   \<and> (\<exists>r. evalLoop exCtx [tdvG, tdvH] exSched = Some r)"
  using scheduler_returns_or_spins [of exSched "[tdvCycX, tdvCycY]" exCtx exRank]
    scheduler_returns_or_spins [of exSched "[tdvG, tdvH]" exCtx exRank]
  by (simp add: ex_defs exSched_def exRank_def tdvsToEval_def)



section \<open>Each variable once, with its declared resources\<close>

text \<open>\<open>buildEvalArgs\<close> makes the dict of the declared resources; where the declared keywords
  differ from each other, that dict holds exactly the declared resources.\<close>

lemma dict_of_Nil: "Map.empty = dict_of []"
  by (simp add: dict_of_def)

lemma dict_of_step:
  "(if b then (dict_of xs)(k \<mapsto> v) else dict_of xs) = dict_of (xs @ (if b then [(k, v)] else []))"
  by (simp add: dict_of_def)

lemma buildEvalArgs_dict:
  "buildEvalArgs t (c_derivs c) (c_PTM c) (c_gPTM c) (c_MWv c) (c_MWu c) out (c_gibbsSp c) (c_f c)
     = dict_of (declaredList t c out)"
  unfolding buildEvalArgs_def declaredList_def Let_def dict_of_Nil dict_of_step
  by (simp only: append_Nil append_assoc)

lemma dict_of_rev: "dict_of xs = map_of (rev xs)"
proof (induction xs rule: rev_induct)
  case Nil
  then show ?case by (simp add: dict_of_def)
next
  case (snoc x xs)
  then show ?case by (cases x) (simp add: dict_of_def)
qed

lemma dict_of_distinct: "distinct (map fst xs) \<Longrightarrow> dict_of xs = map_of xs"
  unfolding dict_of_rev
  by (subst map_of_inject_set) (simp_all add: rev_map [symmetric])

lemma declaredList_keys: "map fst (declaredList t c out) = declaredKeys t"
  by (simp add: declaredList_def declaredKeys_def)

lemma buildEvalArgs_declared:
  "distinct (declaredKeys t) \<Longrightarrow>
   buildEvalArgs t (c_derivs c) (c_PTM c) (c_gPTM c) (c_MWv c) (c_MWu c) out (c_gibbsSp c) (c_f c)
     = map_of (declaredList t c out)"
  by (simp add: buildEvalArgs_dict dict_of_distinct declaredList_keys)

lemma update_fresh: "k \<notin> fst ` set al \<Longrightarrow> AList.update k v al = al @ [(k, v)]"
  by (induction al) auto


lemma seqEval_append:
  "seqEval c (ts @ ts') out =
     (fst (seqEval c ts out) @ fst (seqEval c ts' (snd (seqEval c ts out))),
      snd (seqEval c ts' (snd (seqEval c ts out))))"
  by (induction ts arbitrary: out) (simp_all add: Let_def)

lemma seqEval_names: "map fst (fst (seqEval c ts out)) = map name ts"
  by (induction ts arbitrary: out) (simp_all add: Let_def)

lemma seqEval_keys: "map fst (inst (snd (seqEval c ts out))) = map fst (inst out) @ map name ts"
  by (induction ts arbitrary: out) (simp_all add: Let_def)

lemma evalBatch_seqEval:
  assumes "distinct (map name ts)"
    and "name ` set ts \<inter> fst ` set (inst (s_tdvout st)) = {}"
    and "\<forall>t\<in>set ts. distinct (declaredKeys t)"
  shows "s_tdvout (evalBatch c ts st) = snd (seqEval c ts (s_tdvout st))
       \<and> calcCalls (s_calls (evalBatch c ts st))
           = calcCalls (s_calls st) @ fst (seqEval c ts (s_tdvout st))"
  using assms
proof (induction ts arbitrary: st)
  case Nil
  then show ?case by simp
next
  case (Cons t ts)
  let ?args = "map_of (declaredList t c (s_tdvout st))"
  let ?out = "(s_tdvout st)\<lparr>inst := inst (s_tdvout st) @ [(name t, calcFn t ?args)]\<rparr>"
  have fresh: "name t \<notin> fst ` set (inst (s_tdvout st))"
    using Cons.prems(2) by auto
  have keys: "distinct (declaredKeys t)"
    using Cons.prems(3) by simp
  have one: "s_tdvout (evalOne c t st) = ?out"
    "calcCalls (s_calls (evalOne c t st)) = calcCalls (s_calls st) @ [(name t, ?args)]"
    "completedTDVs (evalOne c t st) = insert (name t) (completedTDVs st)"
    by (simp_all add: evalOne_def Let_def buildEvalArgs_declared [OF keys]
        update_fresh [OF fresh] calcCalls_append)
  have "name ` set ts \<inter> fst ` set (inst (s_tdvout (evalOne c t st))) = {}"
    using Cons.prems(1,2) by (auto simp: one(1))
  with Cons.IH [of "evalOne c t st"] Cons.prems(1,3)
  have "s_tdvout (evalBatch c ts (evalOne c t st)) = snd (seqEval c ts ?out)
       \<and> calcCalls (s_calls (evalBatch c ts (evalOne c t st)))
           = calcCalls (s_calls (evalOne c t st)) @ fst (seqEval c ts ?out)"
    by (simp add: one(1))
  then show ?case
    by (simp add: one Let_def)
qed

lemma seq_inv_step:
  assumes names: "distinct (map name tdvSpec)"
    and keys: "\<forall>t\<in>set tdvSpec. distinct (declaredKeys t)"
    and out0: "inst out0 = []"
    and inv: "seq_inv c tdvSpec out0 s"
  shows "seq_inv c tdvSpec out0 (evalBatch c (tdvsToEval tdvSpec (completedTDVs s)) s)"
proof -
  let ?B = "tdvsToEval tdvSpec (completedTDVs s)"
  from inv obtain ts where ts: "distinct (map name ts)" "set ts \<subseteq> set tdvSpec"
      "completedTDVs s = name ` set ts"
      "calcCalls (s_calls s) = fst (seqEval c ts out0)"
      "s_tdvout s = snd (seqEval c ts out0)"
    unfolding seq_inv_def by blast
  have dB: "distinct (map name ?B)"
    using names by (rule tdvsToEval_distinct)
  have sB: "set ?B \<subseteq> set tdvSpec"
    by (rule tdvsToEval_subset)
  have fB: "name ` set ?B \<inter> name ` set ts = {}"
    using tdvsToEval_fresh [of _ tdvSpec "completedTDVs s"] ts(3) by auto
  have k: "fst ` set (inst (s_tdvout s)) = name ` set ts"
    using seqEval_keys [of c ts out0] out0 ts(5) by (metis append_Nil list.map(1) set_map)
  have kB: "\<forall>t\<in>set ?B. distinct (declaredKeys t)"
    using keys sB by blast
  have step: "s_tdvout (evalBatch c ?B s) = snd (seqEval c ?B (s_tdvout s))
       \<and> calcCalls (s_calls (evalBatch c ?B s))
           = calcCalls (s_calls s) @ fst (seqEval c ?B (s_tdvout s))"
    using dB fB kB by (intro evalBatch_seqEval) (simp_all add: k)
  have "distinct (map name (ts @ ?B))"
    using ts(1) dB fB by auto
  moreover have "set (ts @ ?B) \<subseteq> set tdvSpec"
    using ts(2) sB by simp
  moreover have "completedTDVs (evalBatch c ?B s) = name ` set (ts @ ?B)"
    by (simp add: evalBatch_completed ts(3) image_Un)
  moreover have "calcCalls (s_calls (evalBatch c ?B s)) = fst (seqEval c (ts @ ?B) out0)"
    using step by (simp add: seqEval_append ts(4,5))
  moreover have "s_tdvout (evalBatch c ?B s) = snd (seqEval c (ts @ ?B) out0)"
    using step by (simp add: seqEval_append ts(5))
  ultimately show ?thesis
    unfolding seq_inv_def by blast
qed

lemma evalLoop_sequential:
  assumes loop: "evalLoop c tdvSpec \<lparr>completedTDVs = {}, s_tdvout = out0, s_calls = cs\<rparr> = Some r"
    and cs: "calcCalls cs = []"
    and out0: "inst out0 = []"
    and keys: "\<forall>t\<in>set tdvSpec. distinct (declaredKeys t)"
  shows "\<exists>ts. distinct (map name ts) \<and> set ts = set tdvSpec
            \<and> calcCalls (s_calls r) = fst (seqEval c ts out0)
            \<and> s_tdvout r = snd (seqEval c ts out0)"
proof -
  let ?s0 = "\<lparr>completedTDVs = {}, s_tdvout = out0, s_calls = cs\<rparr>"
  have names: "distinct (map name tdvSpec)" and all: "completedTDVs r = name ` set tdvSpec"
    using evalLoop_completed [OF loop] by auto
  have "seq_inv c tdvSpec out0 ?s0"
    unfolding seq_inv_def using cs by (intro exI [of _ "[]"]) simp
  then have "seq_inv c tdvSpec out0 r"
    using evalLoop_invariant [OF loop, of "seq_inv c tdvSpec out0"]
      seq_inv_step [OF names keys out0] by blast
  then obtain ts where ts: "distinct (map name ts)" "set ts \<subseteq> set tdvSpec"
      "completedTDVs r = name ` set ts"
      "calcCalls (s_calls r) = fst (seqEval c ts out0)"
      "s_tdvout r = snd (seqEval c ts out0)"
    unfolding seq_inv_def by blast
  have "set ts = set tdvSpec"
  proof
    show "set ts \<subseteq> set tdvSpec" by (rule ts(2))
    show "set tdvSpec \<subseteq> set ts"
    proof
      fix t assume t: "t \<in> set tdvSpec"
      then have "name t \<in> name ` set ts" using all ts(3) by auto
      then obtain u where u: "u \<in> set ts" "name u = name t" by auto
      with ts(2) have "u \<in> set tdvSpec" by auto
      with names t u(2) have "u = t"
        by (meson distinct_map inj_onD)
      with u(1) show "t \<in> set ts" by simp
    qed
  qed
  with ts show ?thesis by blast
qed


lemma wrapPTM_array:
  assumes "wrapPTM h PTM dimCt tdvSpec = Inr (h1, a)" and "cells h1 a = Some w"
  shows "w = ObjArray (ptm_rows w) \<or> w = FloatArray (ptm_rows w)"
  using assms unfolding wrapPTM_def deref_def
  by (auto simp: ptm_rows_def split: sum.splits option.splits bool.splits ptm.splits prod.splits
      if_splits)

text \<open>
  C5: take a valid input: validation passes, the point set is wrapped into \<open>w\<close>, the
  required derivatives and the conversion factor are obtained, the closure's names are
  distinct, its dependencies lie in the closure and are acyclic, and each descriptor's
  declared keywords differ from each other. Then the call returns, and there is a sequence
  \<open>ts\<close> holding each variable of the closure exactly once such that the computation calls
  are those of evaluating \<open>ts\<close> in order: one call per variable, with exactly the declared
  resources (the derivatives, the gridded point set, the two molecular weights, the result
  object as grown so far, the spline, the wrapped point set, the conversion factor) as
  arguments; each value is stored once under its name, and the caller gets what the
  Boundary Reconciler makes of that object.
\<close>

theorem each_variable_computed_once:
  assumes exp: "expandTDVSpec E origSpec (length (number gibbsSp)) = Inr tdvSpec"
    and obj: "cells h PTM = Some orig"
    and chk: "checkInputs E gibbsSp (length (number gibbsSp)) tdvSpec orig MWv MWu
                failOnExtrapolate = Inr ws"
    and wrp: "wrapPTM h PTM (length (number gibbsSp)) tdvSpec = Inr (h1, a)"
    and arr: "cells h1 a = Some w"
    and der: "getDerivatives E gibbsSp (ptm_rows w) (length (number gibbsSp)) tdvSpec
                = (cs, Inr derivs)"
    and fac: "factorStage tdvSpec MWu (ptm_rows w) = Inr f"
    and names: "distinct (map name tdvSpec)"
    and acyc: "\<forall>t\<in>set tdvSpec. \<forall>d\<in>reqTDV t.
                 d \<in> name ` set tdvSpec \<and> (rank d :: nat) < rank (name t)"
    and keys: "\<forall>t\<in>set tdvSpec. distinct (declaredKeys t)"
  shows "let c = \<lparr>c_derivs = derivs, c_PTM = ptm_rows w,
                   c_gPTM = gridStage tdvSpec (ptm_rows w), c_MWv = MWv, c_MWu = MWu,
                   c_gibbsSp = gibbsSp, c_f = f\<rparr>;
             out0 = createThermodynamicStatesObj (length (number gibbsSp)) tdvSpec orig
         in \<exists>oc ts.
              evalSolutionGibbs E h gibbsSp PTM origSpec MWv MWu failOnExtrapolate = Some oc
            \<and> distinct (map name ts) \<and> set ts = set tdvSpec
            \<and> map fst (calcCalls (o_calls oc)) = map name ts
            \<and> calcCalls (o_calls oc) = fst (seqEval c ts out0)
            \<and> map fst (inst (snd (seqEval c ts out0))) = map name ts
            \<and> o_result oc = remove0M (snd (seqEval c ts out0)) (ptm_size w) (ptm_rows w)"
proof -
  let ?d = "length (number gibbsSp)"
  let ?W = "ptm_rows w"
  let ?c = "\<lparr>c_derivs = derivs, c_PTM = ?W, c_gPTM = gridStage tdvSpec ?W, c_MWv = MWv,
             c_MWu = MWu, c_gibbsSp = gibbsSp, c_f = f\<rparr>"
  let ?out0 = "createThermodynamicStatesObj ?d tdvSpec orig"
  let ?s0 = "\<lparr>completedTDVs = {}, s_tdvout = ?out0, s_calls = cs\<rparr>"
  have out0: "inst ?out0 = []"
    by (simp add: createThermodynamicStatesObj_def)
  have cs: "calcCalls cs = []"
    using der derivLoop_calcCalls [of E gibbsSp ?W ?d "reqderivs tdvSpec" "[]" "[]" cs "Inr derivs"]
    by (simp add: getDerivatives_def)
  obtain r where loop: "evalLoop ?c tdvSpec ?s0 = Some r"
    using evalLoop_returns [OF names acyc, of ?s0 ?c] by auto
  from evalLoop_sequential [OF loop cs out0 keys] obtain ts where
    ts: "distinct (map name ts)" "set ts = set tdvSpec"
      "calcCalls (s_calls r) = fst (seqEval ?c ts ?out0)"
      "s_tdvout r = snd (seqEval ?c ts ?out0)"
    by blast
  define oc where "oc = \<lparr>o_heap = h1, o_msgs = addedNote origSpec tdvSpec @ ws,
      o_calls = s_calls r, o_result = remove0M (s_tdvout r) (ptm_size w) ?W\<rparr>"
  have comp: "compute E h1 (addedNote origSpec tdvSpec @ ws) gibbsSp ?d tdvSpec ?out0
                (ptm_size w) ?W MWv MWu = Some oc"
    unfolding compute_def oc_def raised_def using der fac loop
    by (simp split: sum.splits)
  have "evalSolutionGibbs E h gibbsSp PTM origSpec MWv MWu failOnExtrapolate = Some oc"
    using wrapPTM_array [OF wrp arr] exp obj chk wrp arr comp
    unfolding evalSolutionGibbs_def Let_def deref_def
    by (auto split: ptm.splits)
  moreover have "map fst (calcCalls (o_calls oc)) = map name ts"
    by (simp add: oc_def ts(3) seqEval_names)
  moreover have "map fst (inst (snd (seqEval ?c ts ?out0))) = map name ts"
    by (simp add: seqEval_keys out0)
  moreover have "calcCalls (o_calls oc) = fst (seqEval ?c ts ?out0)"
    by (simp add: oc_def ts(3))
  moreover have "o_result oc = remove0M (snd (seqEval ?c ts ?out0)) (ptm_size w) ?W"
    by (simp add: oc_def ts(4))
  ultimately show ?thesis
    unfolding Let_def using ts(1,2) by blast
qed


theorem each_variable_computed_once_witness:
  "\<exists>oc ts. evalSolutionGibbs (exEnv [tdvG, tdvH]) (hp (ObjArray [[1], [300, 310]])) exSpline2 0
               [''G'', ''H''] None None True = Some oc
     \<and> distinct (map name ts) \<and> set ts = set [tdvG, tdvH]
     \<and> map fst (calcCalls (o_calls oc)) = map name ts
     \<and> calcCalls (o_calls oc)
         = fst (seqEval exCtx ts
                  (createThermodynamicStatesObj 2 [tdvG, tdvH] (ObjArray [[1], [300, 310]])))
     \<and> o_result oc
         = remove0M (snd (seqEval exCtx ts
                       (createThermodynamicStatesObj 2 [tdvG, tdvH] (ObjArray [[1], [300, 310]]))))
             2 [[1], [300, 310]]"
proof -
  let ?E = "exEnv [tdvG, tdvH]"
  let ?p = "ObjArray [[1], [300, 310]]"
  have exp: "expandTDVSpec ?E [''G'', ''H''] (length (number exSpline2)) = Inr [tdvG, tdvH]"
    by (simp add: exEnv_def)
  have obj: "cells (hp ?p) 0 = Some ?p"
    by (simp add: hp_def)
  have chk: "checkInputs ?E exSpline2 (length (number exSpline2)) [tdvG, tdvH] ?p None None True
               = Inr []"
    by (simp add: eval_defs ex_defs)
  have wrp: "wrapPTM (hp ?p) 0 (length (number exSpline2)) [tdvG, tdvH] = Inr (hp ?p, 0)"
    by (simp add: eval_defs ex_defs)
  have der: "getDerivatives ?E exSpline2 (ptm_rows ?p) (length (number exSpline2)) [tdvG, tdvH]
               = ([EvalSpline ''d0'' [[1], [300, 310]] [0, 0]],
                  Inr [(''d0'', Ar [Ar [Sc 301, Sc 311]])])"
    by (simp add: eval_defs ex_defs)
  have fac: "factorStage [tdvG, tdvH] None (ptm_rows ?p) = Inr None"
    by (simp add: eval_defs ex_defs)
  have names: "distinct (map name [tdvG, tdvH])"
    by (simp add: ex_defs)
  have acyc: "\<forall>t\<in>set [tdvG, tdvH]. \<forall>d\<in>reqTDV t.
                d \<in> name ` set [tdvG, tdvH] \<and> exRank d < exRank (name t)"
    by (simp add: ex_defs exRank_def)
  have keys: "\<forall>t\<in>set [tdvG, tdvH]. distinct (declaredKeys t)"
    by (simp add: ex_defs declaredKeys_def)
  have ctx: "\<lparr>c_derivs = [(''d0'', Ar [Ar [Sc 301, Sc 311]])], c_PTM = ptm_rows ?p,
              c_gPTM = gridStage [tdvG, tdvH] (ptm_rows ?p), c_MWv = None, c_MWu = None,
              c_gibbsSp = exSpline2, c_f = None\<rparr> = exCtx"
    by (simp add: exCtx_def gridStage_def ptm_rows_def ex_defs)
  have two: "length (number exSpline2) = 2" "ptm_size ?p = 2" "ptm_rows ?p = [[1], [300, 310]]"
    by (simp_all add: exSpline2_def ptm_size_def ptm_rows_def)
  from each_variable_computed_once [OF exp obj chk wrp obj der fac names acyc keys]
  show ?thesis
    unfolding Let_def ctx unfolding two by blast
qed


section \<open>Injecting and removing the zero-concentration point\<close>





























end
